theory Spec2Isabelle
  imports Main
begin

section \<open>Text primitives of the output-line classifier\<close>

text \<open>
  The backup job reads the child process's output line by line (\<^verbatim>\<open>readline\<close>) and
  classifies every line with substring tests, \<^verbatim>\<open>str.lower\<close>, \<^verbatim>\<open>str.strip\<close> and three
  regular expressions. A line is modelled as a \<^typ>\<open>string\<close>; its characters are the
  code points below 256 (Latin-1), on which \<^verbatim>\<open>lower\<close> maps one character to one
  character, \<^verbatim>\<open>\d\<close> is an ASCII digit and \<^verbatim>\<open>\s\<close> is one of twelve blanks.
\<close>

definition is_digit :: "char \<Rightarrow> bool" where
  "is_digit c = (c \<in> set ''0123456789'')"

definition is_space :: "char \<Rightarrow> bool" where
  "is_space c =
     (c \<in> set [CHR 0x09, CHR 0x0A, CHR 0x0B, CHR 0x0C, CHR 0x0D, CHR 0x1C, CHR 0x1D,
               CHR 0x1E, CHR 0x1F, CHR 0x20, CHR 0x85, CHR 0xA0])"

text \<open>
  \<^verbatim>\<open>str.lower\<close> on Latin-1: the letters A to Z, and the accented capitals
  0xC0 to 0xDE without the multiplication sign 0xD7, move up by 32.
\<close>

definition upper_latin1 :: "char list" where
  "upper_latin1 =
       [CHR 0xC0, CHR 0xC1, CHR 0xC2, CHR 0xC3, CHR 0xC4, CHR 0xC5, CHR 0xC6, CHR 0xC7,
        CHR 0xC8, CHR 0xC9, CHR 0xCA, CHR 0xCB, CHR 0xCC, CHR 0xCD, CHR 0xCE, CHR 0xCF,
        CHR 0xD0, CHR 0xD1, CHR 0xD2, CHR 0xD3, CHR 0xD4, CHR 0xD5, CHR 0xD6, CHR 0xD8,
        CHR 0xD9, CHR 0xDA, CHR 0xDB, CHR 0xDC, CHR 0xDD, CHR 0xDE]"

definition lower_latin1 :: "char list" where
  "lower_latin1 =
       [CHR 0xE0, CHR 0xE1, CHR 0xE2, CHR 0xE3, CHR 0xE4, CHR 0xE5, CHR 0xE6, CHR 0xE7,
        CHR 0xE8, CHR 0xE9, CHR 0xEA, CHR 0xEB, CHR 0xEC, CHR 0xED, CHR 0xEE, CHR 0xEF,
        CHR 0xF0, CHR 0xF1, CHR 0xF2, CHR 0xF3, CHR 0xF4, CHR 0xF5, CHR 0xF6, CHR 0xF8,
        CHR 0xF9, CHR 0xFA, CHR 0xFB, CHR 0xFC, CHR 0xFD, CHR 0xFE]"

definition lower_char :: "char \<Rightarrow> char" where
  "lower_char c =
     (case map_of (zip (''ABCDEFGHIJKLMNOPQRSTUVWXYZ'' @ upper_latin1)
                       (''abcdefghijklmnopqrstuvwxyz'' @ lower_latin1)) c of
        Some l \<Rightarrow> l
      | None \<Rightarrow> c)"

definition lower :: "string \<Rightarrow> string" where
  "lower s = map lower_char s"

definition strip :: "string \<Rightarrow> string" where
  "strip s = rev (dropWhile is_space (rev (dropWhile is_space s)))"

fun startswith :: "string \<Rightarrow> string \<Rightarrow> bool" where
  "startswith s [] = True"
| "startswith [] (p # ps) = False"
| "startswith (c # cs) (p # ps) = (c = p \<and> startswith cs ps)"

text \<open>\<open>contains s pat\<close> is Python's \<^verbatim>\<open>pat in s\<close>.\<close>

fun contains :: "string \<Rightarrow> string \<Rightarrow> bool" where
  "contains [] pat = (pat = [])"
| "contains (c # cs) pat = (startswith (c # cs) pat \<or> contains cs pat)"

text \<open>
  The messages of the exceptions that reach the handler of the worker. The texts are
  Korean sentences; each is a constructor here, carrying the values the source formats
  into it. The message of the exception raised after a failed export carries the exit
  code in \<^verbatim>\<open>evernote_backup_gui.py\<close> and is a fixed sentence in
  \<^verbatim>\<open>evernote_backup_gui 2.0.py\<close>. \<open>Int_limit n\<close> is the message of the \<^verbatim>\<open>ValueError\<close>
  of \<^verbatim>\<open>int\<close> on a string of \<open>n\<close> digits.
\<close>

datatype err_msg = Export_failed_code int | Sync_failed | Export_failed | Int_limit nat

text \<open>
  \<^verbatim>\<open>int\<close> applied to a group \<^verbatim>\<open>(\d+)\<close>: the decimal value of a string of digits. The
  interpreter converts at most 4300 digits (\<^verbatim>\<open>sys.get_int_max_str_digits()\<close>, which the
  program never changes) and raises \<^verbatim>\<open>ValueError\<close> on a longer string, leading zeros
  counted.
\<close>

definition digit_val :: "char \<Rightarrow> int" where
  "digit_val c = int (of_char c) - 48"

definition digits_value :: "string \<Rightarrow> int" where
  "digits_value ds = foldl (\<lambda>a c. 10 * a + digit_val c) 0 ds"

definition int_max_str_digits :: nat where
  "int_max_str_digits = 4300"

definition py_int :: "string \<Rightarrow> err_msg + int" where
  "py_int ds =
     (if int_max_str_digits < length ds then Inl (Int_limit (length ds))
      else Inr (digits_value ds))"

text \<open>The decimal numeral of a natural number, as \<^verbatim>\<open>str(n)\<close> prints it.\<close>

fun dec :: "nat \<Rightarrow> string" where
  "dec n = (if n < 10 then [''0123456789'' ! n]
            else dec (n div 10) @ [''0123456789'' ! (n mod 10)])"

declare dec.simps [simp del]

text \<open>The same numeral behind \<open>k\<close> leading zeros, as in the seconds of \<^verbatim>\<open>2:05\<close>.\<close>

definition zdec :: "nat \<Rightarrow> nat \<Rightarrow> string" where
  "zdec k n = replicate k CHR ''0'' @ dec n"

text \<open>
  \<^verbatim>\<open>re.search\<close> tries the pattern at every start position from the left and returns the
  first match. The pattern itself is given as a matcher anchored at the start of its
  argument, which returns the captured groups.
\<close>

fun re_search :: "(string \<Rightarrow> 'a option) \<Rightarrow> string \<Rightarrow> 'a option" where
  "re_search m [] = m []"
| "re_search m (c # cs) = (case m (c # cs) of Some g \<Rightarrow> Some g | None \<Rightarrow> re_search m cs)"

text \<open>
  \<^verbatim>\<open>(\d+) notes to download\<close>: the group is greedy, and what follows it starts with
  a blank, which is no digit, so the only candidate is the whole run of digits.
\<close>

definition match_notes_to_download :: "string \<Rightarrow> string option" where
  "match_notes_to_download s =
     (let ds = takeWhile is_digit s; rest = dropWhile is_digit s
      in if ds \<noteq> [] \<and> startswith rest '' notes to download'' then Some ds else None)"

text \<open>
  The fixed table of \<^verbatim>\<open>is_ignorable_error\<close>: a line is ignorable when its lower-case
  form contains the lower-case form of one of the nine entries (the dot is a plain
  character: the entries are substrings, not patterns).
\<close>

definition ignorable_patterns :: "string list" where
  "ignorable_patterns =
     [''Failed to download note'',
      ''Note.will be skipped'',
      ''LinkedNotebook.is not accessible'',
      ''RemoteServer returned system error'',
      ''PERMISSION_DENIED'',
      ''NOT_FOUND'',
      ''Authentication failed'',
      ''Shared notebook.not found'',
      ''Business notebook.expired'']"

definition is_ignorable_error :: "string \<Rightarrow> bool" where
  "is_ignorable_error line =
     (let line_lower = lower line
      in list_ex (\<lambda>pattern. contains line_lower (lower pattern)) ignorable_patterns)"

definition extract_note_info :: "string \<Rightarrow> string" where
  "extract_note_info line = line"

section \<open>The application state and what it publishes\<close>

text \<open>
  \<^verbatim>\<open>sync_phase\<close> is a string in the source, with five values
  (preparing, synchronising, exporting, done, restarting).
\<close>

datatype phase = Phase_preparing | Phase_sync | Phase_export | Phase_done | Phase_restart

datatype severity = Sev_info | Sev_success | Sev_warning | Sev_error

text \<open>The other texts shown to the user, again one constructor for each sentence.\<close>

datatype log_msg =
    Log_start | Log_database | Log_output_dir
  | Log_sync string | Log_sync_skip string | Log_sync_limit string
  | Log_rate_limit_wait | Log_failed_count nat | Log_skipped_hint | Log_sync_done
  | Log_export string | Log_done | Log_error err_msg
  | Log_user_abort | Log_paused int int | Log_wait_start int | Log_wait_done

datatype status_msg =
    St_syncing | St_exporting | St_rate_limit_retry | St_done | St_failed
  | St_rate_limit_reached | St_rate_limit_waiting | St_rate_limit_over

datatype detail_msg =
    D_syncing | D_sync_line string | D_exporting | D_export_line string
  | D_download_start | D_notebook string | D_note string | D_file string
  | D_remaining int int | D_done | D_error | D_empty

datatype numbers_msg =
    N_waiting | N_total int | N_elapsed int int | N_restarting | N_done int | N_empty

datatype dialog =
    Dlg_exe_missing | Dlg_login_first | Dlg_already_working | Dlg_confirm_start
  | Dlg_makedirs_failed | Dlg_backup_done | Dlg_open_folder | Dlg_backup_error err_msg
  | Dlg_rate_limit_choice int int | Dlg_rate_limit_warning

text \<open>What reaches the observer: the status label, the two progress labels, the log
  view written directly, and message boxes.\<close>

datatype ui_event =
    Ev_status status_msg severity
  | Ev_detail detail_msg
  | Ev_numbers numbers_msg
  | Ev_progress phase int int
  | Ev_progress_unknown phase
  | Ev_log log_msg
  | Ev_dialog dialog

text \<open>The callbacks the worker hands to the UI thread with \<^verbatim>\<open>root.after(0, ...)\<close>.\<close>

datatype ui_call =
    Ui_backup_start
  | Ui_set_status status_msg severity
  | Ui_set_progress_detail detail_msg
  | Ui_progress_numbers numbers_msg
  | Ui_update_progress_info
  | Ui_backup_rate_limit
  | Ui_backup_success
  | Ui_backup_error err_msg
  | Ui_backup_finish

datatype cmd = Cmd_sync | Cmd_export

text \<open>
  A child process, as the job sees it: the successive non-final results of
  \<^verbatim>\<open>readline\<close>, and the exit code found once the stream is exhausted.
\<close>

record process =
  stream :: "string list"
  returncode :: int

text \<open>
  The fields of the application object that the job reads or writes, the three locals
  of one run of the worker (\<^verbatim>\<open>failed_notes\<close>, \<^verbatim>\<open>rate_limit_detected\<close>,
  \<^verbatim>\<open>wait_time\<close>, initialised when the worker starts), and the traces of what it
  does: the log queue, the queue of UI callbacks, the commands spawned, the worker
  threads started and what was shown. \<^verbatim>\<open>rate_limit_timer\<close> holds the armed
  one-second timer with the two variables of its closure (\<^verbatim>\<open>original_wait_seconds\<close>,
  \<^verbatim>\<open>wait_seconds\<close>); a timer that has fired or was cancelled is \<open>None\<close>.
  Widget settings (buttons, progress bar, colours) and \<^verbatim>\<open>time.sleep\<close> are left out.
\<close>

record app =
  evernote_exe :: "string option"
  is_logged_in :: bool
  is_working :: bool
  total_notes :: int
  current_note :: int
  sync_phase :: phase
  rate_limit_timer :: "(int \<times> int) option"
  failed_notes :: "string list"
  rate_limit_detected :: bool
  wait_time :: "int option"
  log_queue :: "log_msg list"
  ui_queue :: "ui_call list"
  spawned :: "cmd list"
  workers :: nat
  shown :: "ui_event list"

definition queue_log :: "log_msg \<Rightarrow> app \<Rightarrow> app" where
  "queue_log msg st = st\<lparr>log_queue := log_queue st @ [msg]\<rparr>"

definition after0 :: "ui_call \<Rightarrow> app \<Rightarrow> app" where
  "after0 c st = st\<lparr>ui_queue := ui_queue st @ [c]\<rparr>"

definition popen :: "cmd \<Rightarrow> app \<Rightarrow> app" where
  "popen c st = st\<lparr>spawned := spawned st @ [c]\<rparr>"

definition show_event :: "ui_event \<Rightarrow> app \<Rightarrow> app" where
  "show_event e st = st\<lparr>shown := shown st @ [e]\<rparr>"

definition start_thread :: "app \<Rightarrow> app" where
  "start_thread st = st\<lparr>workers := Suc (workers st)\<rparr>"

text \<open>
  The \<^verbatim>\<open>while True\<close> loop over the reads of a stream. Its body returns the exception it
  raised, if any, with the state reached at that point; a raise leaves the loop.
\<close>

fun run_lines ::
  "(string \<Rightarrow> app \<Rightarrow> err_msg option \<times> app) \<Rightarrow> string list \<Rightarrow> app \<Rightarrow> err_msg option \<times> app"
where
  "run_lines body [] st = (None, st)"
| "run_lines body (output # outputs) st =
     (case body output st of
        (None, st') \<Rightarrow> run_lines body outputs st'
      | (Some e, st') \<Rightarrow> (Some e, st'))"

section \<open>The job of \<^verbatim>\<open>evernote_backup_gui.py\<close>\<close>

subsection \<open>\<^verbatim>\<open>start_backup\<close>\<close>


subsection \<open>\<^verbatim>\<open>backup_task\<close>\<close>

text \<open>The body of the sync loop for one stripped line: three independent statements.
  The first one converts the announced total and raises when \<^verbatim>\<open>int\<close> does, before
  anything was done for the line.\<close>

definition sync_line :: "string \<Rightarrow> app \<Rightarrow> err_msg option \<times> app" where
  "sync_line line st =
     (case (if contains line ''notes to download'' then
              (case re_search match_notes_to_download line of
                 Some g \<Rightarrow>
                   (case py_int g of
                      Inl e \<Rightarrow> Inl e
                    | Inr n \<Rightarrow> Inr (after0 Ui_update_progress_info (st\<lparr>total_notes := n\<rparr>)))
               | None \<Rightarrow> Inr st)
            else Inr st) of
        Inl e \<Rightarrow> (Some e, st)
      | Inr st \<Rightarrow>
          (let st = (if contains line ''Downloading'' \<and> contains line ''notes'' then
                       after0 (Ui_set_progress_detail (D_sync_line line))
                         (queue_log (Log_sync line) st)
                     else if is_ignorable_error line then
                       (queue_log (Log_sync_skip line) st)
                         \<lparr>failed_notes := failed_notes st @ [extract_note_info line]\<rparr>
                     else queue_log (Log_sync line) st)
           in (None,
               if contains (lower line) ''rate limit'' \<or> contains (lower line) ''throttle'' then
                 after0 (Ui_progress_numbers N_waiting)
                   (after0 (Ui_set_status St_rate_limit_retry Sev_success)
                     (queue_log Log_rate_limit_wait (st\<lparr>rate_limit_detected := True\<rparr>)))
               else st)))"

text \<open>One round of the \<^verbatim>\<open>while True\<close> loop: an empty read is skipped.\<close>

definition sync_output :: "string \<Rightarrow> app \<Rightarrow> err_msg option \<times> app" where
  "sync_output output st = (if output \<noteq> [] then sync_line (strip output) st else (None, st))"

definition export_line :: "string \<Rightarrow> app \<Rightarrow> app" where
  "export_line line st =
     (let st = queue_log (Log_export line) st
      in if contains (lower line) ''export'' \<or> contains (lower line) ''file'' then
           (if total_notes st > 0 then
              after0 (Ui_set_progress_detail (D_export_line line))
                (after0 Ui_update_progress_info
                  (st\<lparr>current_note := min (current_note st + 1) (total_notes st)\<rparr>))
            else st)
         else st)"

definition export_output :: "string \<Rightarrow> app \<Rightarrow> app" where
  "export_output output st = (if output \<noteq> [] then export_line (strip output) st else st)"

text \<open>
  The worker, in two parts: up to the end of the sync loop, and the export. A
  \<^verbatim>\<open>raise\<close> keeps the state reached so far and leaves the \<^verbatim>\<open>try\<close> block for the
  handler, which schedules \<^verbatim>\<open>backup_ui_error\<close>; the \<^verbatim>\<open>finally\<close> clause schedules
  \<^verbatim>\<open>backup_ui_finish\<close> on every path. The exit code of the sync process is never read.
\<close>

definition sync_part :: "process \<Rightarrow> app \<Rightarrow> err_msg option \<times> app" where
  "sync_part sync st =
     (let st = st\<lparr>is_working := True\<rparr>;
          st = after0 Ui_backup_start st;
          st = queue_log Log_output_dir (queue_log Log_database (queue_log Log_start st));
          st = st\<lparr>sync_phase := Phase_sync\<rparr>;
          st = after0 (Ui_set_status St_syncing Sev_warning) st;
          st = after0 (Ui_set_progress_detail D_syncing) st;
          st = popen Cmd_sync st;
          st = st\<lparr>failed_notes := [], rate_limit_detected := False\<rparr>
      in case run_lines sync_output (stream sync) st of
           (Some e, st) \<Rightarrow> (Some e, st)
         | (None, st) \<Rightarrow>
             (None,
              if failed_notes st \<noteq> [] then
                queue_log Log_skipped_hint
                  (queue_log (Log_failed_count (length (failed_notes st))) st)
              else st))"

definition export_part :: "process \<Rightarrow> app \<Rightarrow> err_msg option \<times> app" where
  "export_part export st =
     (let st = st\<lparr>sync_phase := Phase_export, current_note := 0\<rparr>;
          st = after0 (Ui_set_status St_exporting Sev_warning) st;
          st = after0 (Ui_set_progress_detail D_exporting) st;
          st = popen Cmd_export st;
          st = fold export_output (stream export) st
      in if returncode export \<noteq> 0 then (Some (Export_failed_code (returncode export)), st)
         else (None, after0 Ui_backup_success (queue_log Log_done st)))"

definition handle_exception :: "err_msg option \<times> app \<Rightarrow> app" where
  "handle_exception r =
     (case r of (Some e, st) \<Rightarrow> after0 (Ui_backup_error e) st | (None, st) \<Rightarrow> st)"

definition task_body :: "process \<Rightarrow> process \<Rightarrow> app \<Rightarrow> err_msg option \<times> app" where
  "task_body sync export st =
     (case sync_part sync st of
        (Some e, st) \<Rightarrow> (Some e, st)
      | (None, st) \<Rightarrow> export_part export st)"

definition backup_task :: "process \<Rightarrow> process \<Rightarrow> app \<Rightarrow> app" where
  "backup_task sync export st =
     after0 Ui_backup_finish (handle_exception (task_body sync export st))"

subsection \<open>The callbacks on the UI thread\<close>

definition update_progress_info :: "app \<Rightarrow> app" where
  "update_progress_info st =
     (if total_notes st > 0 then
        (if sync_phase st = Phase_sync \<or> sync_phase st = Phase_export
         then show_event (Ev_progress (sync_phase st) (current_note st) (total_notes st)) st
         else show_event (Ev_numbers (N_total (total_notes st))) st)
      else st)"

definition backup_ui_success :: "app \<Rightarrow> app" where
  "backup_ui_success st =
     show_event (Ev_dialog Dlg_backup_done)
       (show_event (Ev_detail D_done) (show_event (Ev_status St_done Sev_success) st))"

definition backup_ui_error :: "err_msg \<Rightarrow> app \<Rightarrow> app" where
  "backup_ui_error msg st =
     show_event (Ev_dialog (Dlg_backup_error msg)) (queue_log (Log_error msg) st)"

definition backup_ui_finish :: "app \<Rightarrow> app" where
  "backup_ui_finish st =
     (let st = (if rate_limit_timer st \<noteq> None then st\<lparr>rate_limit_timer := None\<rparr> else st);
          st = st\<lparr>is_working := False\<rparr>
      in show_event (Ev_numbers N_empty) (show_event (Ev_detail D_empty) st))"

fun run_ui :: "ui_call \<Rightarrow> app \<Rightarrow> app" where
  "run_ui Ui_backup_start st = st"
| "run_ui (Ui_set_status m l) st = show_event (Ev_status m l) st"
| "run_ui (Ui_set_progress_detail d) st = show_event (Ev_detail d) st"
| "run_ui (Ui_progress_numbers n) st = show_event (Ev_numbers n) st"
| "run_ui Ui_update_progress_info st = update_progress_info st"
| "run_ui Ui_backup_rate_limit st = st"
| "run_ui Ui_backup_success st = backup_ui_success st"
| "run_ui (Ui_backup_error msg) st = backup_ui_error msg st"
| "run_ui Ui_backup_finish st = backup_ui_finish st"

text \<open>
  The UI thread runs the queued callbacks in the order in which they were scheduled.
  A job is one run of the worker followed by the callbacks it has scheduled. They are
  scheduled with delay 0 and the main loop has nothing else to do, so all of them have
  run before a timer of one second, armed during the same run of the worker, expires.
  What \<^verbatim>\<open>update_progress_info\<close> displays is read when the callback runs, here after the
  worker; no property below depends on the displayed counters.
\<close>

definition drain_ui :: "app \<Rightarrow> app" where
  "drain_ui st = fold run_ui (ui_queue st) (st\<lparr>ui_queue := []\<rparr>)"

definition run_job :: "process \<Rightarrow> process \<Rightarrow> app \<Rightarrow> app" where
  "run_job sync export st = drain_ui (backup_task sync export st)"

text \<open>The application object as \<^verbatim>\<open>__init__\<close> leaves it, after the tool was found and
  the login confirmed.\<close>

definition ready :: app where
  "ready = \<lparr>evernote_exe = Some ''evernote-backup.exe'', is_logged_in = True,
            is_working = False, total_notes = 0, current_note = 0,
            sync_phase = Phase_preparing, rate_limit_timer = None, failed_notes = [],
            rate_limit_detected = False, wait_time = None, log_queue = [], ui_queue = [],
            spawned = [], workers = 0, shown = []\<rparr>"

text \<open>
  How the job ended, read from what the observer was shown: the job has failed when the
  error box appeared, and succeeded when the completion box appeared.
\<close>

definition job_failed :: "app \<Rightarrow> bool" where
  "job_failed st = list_ex (\<lambda>e. case e of Ev_dialog (Dlg_backup_error m) \<Rightarrow> True | _ \<Rightarrow> False) (shown st)"

definition job_succeeded :: "app \<Rightarrow> bool" where
  "job_succeeded st = (Ev_dialog Dlg_backup_done \<in> set (shown st))"

section \<open>The job of \<^verbatim>\<open>evernote_backup_gui 2.0.py\<close>\<close>

subsection \<open>The patterns\<close>

text \<open>Here the entries are written with \<^verbatim>\<open>.*\<close>, and are still compared as substrings;
  a line that mentions a rate limit is never ignorable.\<close>

definition ignorable_patterns_v2 :: "string list" where
  "ignorable_patterns_v2 =
     [''Failed to download note'',
      ''Note.*will be skipped'',
      ''LinkedNotebook.*is not accessible'',
      ''RemoteServer returned system error'',
      ''PERMISSION_DENIED'',
      ''NOT_FOUND'',
      ''Authentication failed'',
      ''Shared notebook.*not found'',
      ''Business notebook.*expired'']"

definition is_ignorable_error_v2 :: "string \<Rightarrow> bool" where
  "is_ignorable_error_v2 line =
     (let line_lower = lower line
      in if contains line_lower ''rate limit'' then False
         else list_ex (\<lambda>pattern. contains line_lower (lower pattern)) ignorable_patterns_v2)"

text \<open>Two steps of an anchored match: a literal, and \<^verbatim>\<open>\s+\<close> before a character that is
  no blank (the greedy run is then the only candidate).\<close>

definition skip_lit :: "string \<Rightarrow> string \<Rightarrow> string option" where
  "skip_lit lit s = (if startswith s lit then Some (drop (length lit) s) else None)"

definition skip_blanks :: "string \<Rightarrow> string option" where
  "skip_blanks s = (if takeWhile is_space s \<noteq> [] then Some (dropWhile is_space s) else None)"

text \<open>\<^verbatim>\<open>Restart program in (\d+):(\d+)\<close>: the first group must end before the colon,
  the second one is greedy and ends the pattern.\<close>

definition match_restart :: "string \<Rightarrow> (string \<times> string) option" where
  "match_restart s =
     Option.bind (skip_lit ''Restart program in '' s) (\<lambda>r.
       let mm = takeWhile is_digit r
       in if mm = [] then None
          else Option.bind (skip_lit '':'' (dropWhile is_digit r)) (\<lambda>r.
            let ss = takeWhile is_digit r
            in if ss = [] then None else Some (mm, ss)))"

text \<open>\<^verbatim>\<open>(\d+)\s+note\(s\)\s+to\s+download\<close>.\<close>

definition match_note_s_to_download :: "string \<Rightarrow> string option" where
  "match_note_s_to_download s =
     (let ds = takeWhile is_digit s
      in if ds = [] then None
         else Option.bind (skip_blanks (dropWhile is_digit s)) (\<lambda>r.
              Option.bind (skip_lit ''note(s)'' r) (\<lambda>r.
              Option.bind (skip_blanks r) (\<lambda>r.
              Option.bind (skip_lit ''to'' r) (\<lambda>r.
              Option.bind (skip_blanks r) (\<lambda>r.
              Option.bind (skip_lit ''download'' r) (\<lambda>r. Some ds)))))))"

text \<open>
  \<^verbatim>\<open>_extract_note_info\<close> searches three patterns, ignoring case, and returns the group
  of the first that matches. In \<^verbatim>\<open>kw[:\s]+"?([^"]+)"?\<close> the run of separators is
  greedy; after it the optional quote is taken when the group can follow it. When the
  group cannot start there (end of line, or a quote with nothing in it), the run gives
  back its last separator, which then starts the group.
\<close>

definition is_sep :: "char \<Rightarrow> bool" where
  "is_sep c = (c = CHR '':'' \<or> is_space c)"

definition not_quote :: "char \<Rightarrow> bool" where
  "not_quote c = (c \<noteq> CHR 0x22)"

definition quoted_group :: "string \<Rightarrow> string option" where
  "quoted_group r =
     (let body = (case r of c # cs \<Rightarrow> if c = CHR 0x22 then cs else r | [] \<Rightarrow> r)
      in if takeWhile not_quote body \<noteq> [] then Some (takeWhile not_quote body) else None)"

definition match_labelled :: "string \<Rightarrow> string \<Rightarrow> string option" where
  "match_labelled kw s =
     (if startswith (lower s) kw then
        (let r = drop (length kw) s; m = length (takeWhile is_sep r)
         in if m = 0 then None
            else (case quoted_group (drop m r) of
                    Some g \<Rightarrow> Some g
                  | None \<Rightarrow> if 2 \<le> m then quoted_group (drop (m - 1) r) else None))
      else None)"

text \<open>\<^verbatim>\<open>Note\s+([^\s]+)\<close>.\<close>

definition match_note_word :: "string \<Rightarrow> string option" where
  "match_note_word s =
     (if startswith (lower s) ''note'' then
        Option.bind (skip_blanks (drop 4 s)) (\<lambda>r.
          let g = takeWhile (\<lambda>c. \<not> is_space c) r in if g = [] then None else Some g)
      else None)"

definition extract_note_info_v2 :: "string \<Rightarrow> string" where
  "extract_note_info_v2 line =
     (case re_search (match_labelled ''note'') line of
        Some g \<Rightarrow> g
      | None \<Rightarrow>
         (case re_search match_note_word line of
            Some g \<Rightarrow> g
          | None \<Rightarrow>
             (case re_search (match_labelled ''title'') line of
                Some g \<Rightarrow> g
              | None \<Rightarrow> ''Unknown'')))"

subsection \<open>\<^verbatim>\<open>start_backup\<close>\<close>


subsection \<open>The two loops\<close>

text \<open>The body of the sync loop is one chain of \<^verbatim>\<open>if\<close>/\<^verbatim>\<open>elif\<close>, the rate limit first.
  In its first two branches \<^verbatim>\<open>int\<close> can raise: in the first after the flag was set and
  before the line is logged, in the second before anything was done.\<close>

definition sync_line_v2 :: "string \<Rightarrow> app \<Rightarrow> err_msg option \<times> app" where
  "sync_line_v2 line st =
     (if contains line ''Rate limit reached'' then
        (let st = st\<lparr>rate_limit_detected := True\<rparr>
         in case re_search match_restart line of
              Some (mm, ss) \<Rightarrow>
                (case py_int mm of
                   Inl e \<Rightarrow> (Some e, st)
                 | Inr minutes \<Rightarrow>
                     (case py_int ss of
                        Inl e \<Rightarrow> (Some e, st)
                      | Inr seconds \<Rightarrow>
                          (None, queue_log (Log_sync_limit line)
                                   (st\<lparr>wait_time := Some (minutes * 60 + seconds)\<rparr>))))
            | None \<Rightarrow> (None, queue_log (Log_sync_limit line) st))
      else if contains line ''note(s) to download'' then
        (case re_search match_note_s_to_download line of
           Some g \<Rightarrow>
             (case py_int g of
                Inl e \<Rightarrow> (Some e, st)
              | Inr n \<Rightarrow>
                  (None, queue_log (Log_sync line)
                           (after0 Ui_update_progress_info (st\<lparr>total_notes := n\<rparr>))))
         | None \<Rightarrow> (None, queue_log (Log_sync line) st))
      else if contains line ''Downloading'' \<and> contains line ''note(s)'' then
        (None, after0 (Ui_set_progress_detail D_download_start) (queue_log (Log_sync line) st))
      else if is_ignorable_error_v2 line then
        (None, (queue_log (Log_sync_skip line) st)
                 \<lparr>failed_notes := failed_notes st @ [extract_note_info_v2 line]\<rparr>)
      else
        (let st = queue_log (Log_sync line) st
         in (None,
             if contains (lower line) ''notebook'' \<and> \<not> contains (lower line) ''error'' then
               after0 (Ui_set_progress_detail (D_notebook (take 50 line))) st
             else if (contains (lower line) ''note'' \<or> contains (lower line) ''downloading'')
                     \<and> \<not> contains (lower line) ''error'' then
               (let st = (if total_notes st > 0 then
                            after0 Ui_update_progress_info
                              (st\<lparr>current_note := min (current_note st + 1) (total_notes st)\<rparr>)
                          else st)
                in after0 (Ui_set_progress_detail (D_note (take 50 line))) st)
             else st)))"

definition sync_output_v2 :: "string \<Rightarrow> app \<Rightarrow> err_msg option \<times> app" where
  "sync_output_v2 output st =
     (if output \<noteq> [] then sync_line_v2 (strip output) st else (None, st))"

definition export_line_v2 :: "string \<Rightarrow> app \<Rightarrow> app" where
  "export_line_v2 line st =
     (let st = queue_log (Log_export line) st
      in if contains (lower line) ''export'' \<or> contains (lower line) ''file'' then
           (let st = (if total_notes st > 0 then
                        after0 Ui_update_progress_info
                          (st\<lparr>current_note := min (current_note st + 1) (total_notes st)\<rparr>)
                      else st)
            in after0 (Ui_set_progress_detail (D_file (take 50 line))) st)
         else st)"

definition export_output_v2 :: "string \<Rightarrow> app \<Rightarrow> app" where
  "export_output_v2 output st = (if output \<noteq> [] then export_line_v2 (strip output) st else st)"

subsection \<open>The rate limit\<close>

text \<open>
  One call of the closure \<^verbatim>\<open>countdown_update\<close>, with its two variables. While seconds
  remain it publishes the remaining and the elapsed time, takes one second off and arms
  a timer of one second for the next call; at zero it resets the counters and starts a
  new worker thread.
\<close>

definition countdown_update :: "int \<Rightarrow> int \<Rightarrow> app \<Rightarrow> app" where
  "countdown_update original_wait_seconds wait_seconds st =
     (if wait_seconds > 0 then
        (let minutes = wait_seconds div 60;
             seconds = wait_seconds mod 60;
             elapsed = original_wait_seconds - wait_seconds;
             st = after0 (Ui_set_progress_detail (D_remaining minutes seconds)) st;
             st = after0 (Ui_progress_numbers (N_elapsed (elapsed div 60) (elapsed mod 60))) st
         in st\<lparr>rate_limit_timer := Some (original_wait_seconds, wait_seconds - 1)\<rparr>)
      else
        (let st = queue_log Log_wait_done st;
             st = after0 (Ui_set_status St_rate_limit_over Sev_success) st;
             st = after0 (Ui_progress_numbers N_restarting) st;
             st = st\<lparr>total_notes := 0, current_note := 0, sync_phase := Phase_restart\<rparr>
         in start_thread st))"

definition auto_wait_and_retry :: "int \<Rightarrow> app \<Rightarrow> app" where
  "auto_wait_and_retry wait_seconds st =
     (let st = queue_log (Log_wait_start wait_seconds) st;
          st = after0 (Ui_set_status St_rate_limit_waiting Sev_warning) st
      in countdown_update wait_seconds wait_seconds st)"

text \<open>
  \<^verbatim>\<open>_handle_rate_limit\<close> runs in the worker. \<^verbatim>\<open>if wait_seconds:\<close> is false for
  \<^verbatim>\<open>None\<close> and for 0. The observer's answer to the three-way box is an input:
  \<open>Some True\<close> waits and retries, \<open>Some False\<close> stops, \<open>None\<close> defers.
\<close>

definition handle_rate_limit :: "int option \<Rightarrow> bool option \<Rightarrow> app \<Rightarrow> app" where
  "handle_rate_limit wait_seconds choice st =
     (let st = after0 Ui_backup_rate_limit st
      in case wait_seconds of
           None \<Rightarrow> after0 Ui_backup_finish (show_event (Ev_dialog Dlg_rate_limit_warning) st)
         | Some w \<Rightarrow>
             if w \<noteq> 0 then
               (let minutes = w div 60;
                    seconds = w mod 60;
                    st = show_event (Ev_dialog (Dlg_rate_limit_choice minutes seconds)) st
                in case choice of
                     Some True \<Rightarrow> auto_wait_and_retry w st
                   | Some False \<Rightarrow> after0 Ui_backup_finish (queue_log Log_user_abort st)
                   | None \<Rightarrow> after0 Ui_backup_finish (queue_log (Log_paused minutes seconds) st))
             else after0 Ui_backup_finish (show_event (Ev_dialog Dlg_rate_limit_warning) st))"

subsection \<open>\<^verbatim>\<open>_backup_task\<close>\<close>

definition sync_part_v2 :: "process \<Rightarrow> app \<Rightarrow> err_msg option \<times> app" where
  "sync_part_v2 sync st =
     (let st = st\<lparr>is_working := True\<rparr>;
          st = after0 Ui_backup_start st;
          st = queue_log Log_start st;
          st = st\<lparr>sync_phase := Phase_sync\<rparr>;
          st = after0 (Ui_set_status St_syncing Sev_warning) st;
          st = after0 (Ui_set_progress_detail D_syncing) st;
          st = popen Cmd_sync st;
          st = st\<lparr>failed_notes := [], rate_limit_detected := False, wait_time := None\<rparr>
      in run_lines sync_output_v2 (stream sync) st)"

definition export_part_v2 :: "process \<Rightarrow> app \<Rightarrow> err_msg option \<times> app" where
  "export_part_v2 export st =
     (let st = (if failed_notes st \<noteq> [] then
                  queue_log (Log_failed_count (length (failed_notes st))) st
                else st);
          st = queue_log Log_sync_done st;
          st = st\<lparr>sync_phase := Phase_export, current_note := 0\<rparr>;
          st = after0 (Ui_set_status St_exporting Sev_warning) st;
          st = after0 (Ui_set_progress_detail D_exporting) st;
          st = popen Cmd_export st;
          st = fold export_output_v2 (stream export) st
      in if returncode export \<noteq> 0 then (Some Export_failed, st)
         else (None, after0 Ui_backup_success (st\<lparr>sync_phase := Phase_done\<rparr>)))"

text \<open>After the sync loop, when it raised nothing: a detected rate limit is handled and
  the worker returns; otherwise a non-zero exit code of the sync raises; otherwise the
  export runs.\<close>

definition task_body_v2 :: "process \<Rightarrow> process \<Rightarrow> bool option \<Rightarrow> app \<Rightarrow> err_msg option \<times> app" where
  "task_body_v2 sync export choice st =
     (case sync_part_v2 sync st of
        (Some e, st) \<Rightarrow> (Some e, st)
      | (None, st) \<Rightarrow>
          if rate_limit_detected st then (None, handle_rate_limit (wait_time st) choice st)
          else if returncode sync \<noteq> 0 then (Some Sync_failed, st)
          else export_part_v2 export st)"

definition backup_task_v2 :: "process \<Rightarrow> process \<Rightarrow> bool option \<Rightarrow> app \<Rightarrow> app" where
  "backup_task_v2 sync export choice st =
     after0 Ui_backup_finish (handle_exception (task_body_v2 sync export choice st))"

subsection \<open>The callbacks on the UI thread, and the timer\<close>

definition update_progress_info_v2 :: "app \<Rightarrow> app" where
  "update_progress_info_v2 st =
     (if total_notes st > 0
      then show_event (Ev_progress (sync_phase st) (current_note st) (total_notes st)) st
      else show_event (Ev_progress_unknown (sync_phase st)) st)"

definition backup_ui_rate_limit :: "app \<Rightarrow> app" where
  "backup_ui_rate_limit st = show_event (Ev_status St_rate_limit_reached Sev_warning) st"

definition backup_ui_success_v2 :: "app \<Rightarrow> app" where
  "backup_ui_success_v2 st =
     (let st = show_event (Ev_log Log_done) st;
          st = show_event (Ev_status St_done Sev_success) st;
          st = show_event (Ev_detail D_done) st;
          st = show_event (Ev_numbers (N_done (total_notes st))) st
      in show_event (Ev_dialog Dlg_open_folder) st)"

definition backup_ui_error_v2 :: "err_msg \<Rightarrow> app \<Rightarrow> app" where
  "backup_ui_error_v2 msg st =
     (let st = show_event (Ev_log (Log_error msg)) st;
          st = show_event (Ev_status St_failed Sev_error) st;
          st = show_event (Ev_detail D_error) st
      in show_event (Ev_dialog (Dlg_backup_error msg)) st)"

fun run_ui_v2 :: "ui_call \<Rightarrow> app \<Rightarrow> app" where
  "run_ui_v2 Ui_backup_start st = st"
| "run_ui_v2 (Ui_set_status m l) st = show_event (Ev_status m l) st"
| "run_ui_v2 (Ui_set_progress_detail d) st = show_event (Ev_detail d) st"
| "run_ui_v2 (Ui_progress_numbers n) st = show_event (Ev_numbers n) st"
| "run_ui_v2 Ui_update_progress_info st = update_progress_info_v2 st"
| "run_ui_v2 Ui_backup_rate_limit st = backup_ui_rate_limit st"
| "run_ui_v2 Ui_backup_success st = backup_ui_success_v2 st"
| "run_ui_v2 (Ui_backup_error msg) st = backup_ui_error_v2 msg st"
| "run_ui_v2 Ui_backup_finish st = backup_ui_finish st"

definition drain_ui_v2 :: "app \<Rightarrow> app" where
  "drain_ui_v2 st = fold run_ui_v2 (ui_queue st) (st\<lparr>ui_queue := []\<rparr>)"

definition run_job_v2 :: "process \<Rightarrow> process \<Rightarrow> bool option \<Rightarrow> app \<Rightarrow> app" where
  "run_job_v2 sync export choice st = drain_ui_v2 (backup_task_v2 sync export choice st)"

text \<open>One second later the armed timer, if there is one, calls the closure again, and
  the UI thread runs what that call has scheduled.\<close>

definition timer_fires :: "app \<Rightarrow> app" where
  "timer_fires st =
     (case rate_limit_timer st of
        None \<Rightarrow> st
      | Some (original_wait_seconds, wait_seconds) \<Rightarrow>
          drain_ui_v2 (countdown_update original_wait_seconds wait_seconds
                         (st\<lparr>rate_limit_timer := None\<rparr>)))"

section \<open>Notions used in the properties\<close>

text \<open>The number of countdown ticks the observer has seen: the publications of the
  remaining time.\<close>

definition ticks_shown :: "app \<Rightarrow> nat" where
  "ticks_shown st =
     length (filter (\<lambda>e. case e of Ev_detail (D_remaining m s) \<Rightarrow> True | _ \<Rightarrow> False) (shown st))"

text \<open>The lines on which \<^verbatim>\<open>int\<close> raises: an announced total, or a part of the time
  token, of more than 4300 digits.\<close>

definition total_too_long :: "string \<Rightarrow> bool" where
  "total_too_long line =
     (contains line ''notes to download'' \<and>
      (case re_search match_notes_to_download line of
         Some g \<Rightarrow> int_max_str_digits < length g
       | None \<Rightarrow> False))"

definition token_too_long :: "string \<Rightarrow> bool" where
  "token_too_long line =
     (case re_search match_restart line of
        Some (mm, ss) \<Rightarrow> int_max_str_digits < length mm \<or> int_max_str_digits < length ss
      | None \<Rightarrow> False)"

text \<open>The bound of the data model: once the total is known, the processed count does
  not exceed it.\<close>

definition within_total :: "app \<Rightarrow> bool" where
  "within_total st = (0 < total_notes st \<longrightarrow> current_note st \<le> total_notes st)"

text \<open>The callbacks that only publish progress; the two loops schedule no others.\<close>

definition is_progress_call :: "ui_call \<Rightarrow> bool" where
  "is_progress_call c =
     (case c of
        Ui_set_status m l \<Rightarrow> True
      | Ui_set_progress_detail d \<Rightarrow> True
      | Ui_progress_numbers n \<Rightarrow> True
      | Ui_update_progress_info \<Rightarrow> True
      | _ \<Rightarrow> False)"

text \<open>The other callbacks a run of the worker has scheduled, in order: the start, the
  outcome and the end of the job.\<close>

definition control_calls :: "app \<Rightarrow> ui_call list" where
  "control_calls st = filter (\<lambda>c. \<not> is_progress_call c) (ui_queue st)"

section \<open>Decimal numerals and the three patterns\<close>

lemma digit_nth:
  "d < 10 \<Longrightarrow> is_digit (''0123456789'' ! d) \<and> digit_val (''0123456789'' ! d) = int d"
  by (auto simp: numeral_eq_Suc less_Suc_eq is_digit_def digit_val_def)

lemma dec_digits: "\<forall>c \<in> set (dec n). is_digit c"
proof (induction n rule: dec.induct)
  case (1 n)
  show ?case
  proof (cases "n < 10")
    case True
    then show ?thesis using digit_nth [of n] by (simp add: dec.simps [of n])
  next
    case False
    then show ?thesis using 1 digit_nth [of "n mod 10"] by (simp add: dec.simps [of n])
  qed
qed

lemma dec_not_empty: "dec n \<noteq> []"
  by (simp add: dec.simps [of n])

lemma digits_value_snoc: "digits_value (ds @ [c]) = 10 * digits_value ds + digit_val c"
  by (simp add: digits_value_def)

lemma digits_value_dec: "digits_value (dec n) = int n"
proof (induction n rule: dec.induct)
  case (1 n)
  show ?case
  proof (cases "n < 10")
    case True
    then show ?thesis using digit_nth [of n] by (simp add: dec.simps [of n] digits_value_def)
  next
    case False
    then have "digits_value (dec n) = 10 * int (n div 10) + int (n mod 10)"
      using 1 digit_nth [of "n mod 10"] by (simp add: dec.simps [of n] digits_value_snoc)
    also have "\<dots> = int n" by presburger
    finally show ?thesis .
  qed
qed

lemma zdec_digits: "\<forall>c \<in> set (zdec k n). is_digit c"
proof -
  have "is_digit CHR ''0''" by (simp add: is_digit_def)
  then show ?thesis using dec_digits [of n] by (auto simp: zdec_def)
qed

lemma zdec_not_empty: "zdec k n \<noteq> []"
  by (simp add: zdec_def dec_not_empty)

lemma digits_value_zeros: "digits_value (replicate k CHR ''0'' @ ds) = digits_value ds"
  by (induction k) (simp_all add: digits_value_def digit_val_def)

lemma digits_value_zdec: "digits_value (zdec k n) = int n"
  by (simp add: zdec_def digits_value_zeros digits_value_dec)

text \<open>\<^verbatim>\<open>int\<close> on a numeral: its value up to 4300 digits, \<^verbatim>\<open>ValueError\<close> beyond.\<close>

lemma py_int_zdec:
  "length (zdec k n) \<le> int_max_str_digits \<Longrightarrow> py_int (zdec k n) = Inr (int n)"
  by (simp add: py_int_def digits_value_zdec)

lemma py_int_too_long:
  "int_max_str_digits < length ds \<Longrightarrow> py_int ds = Inl (Int_limit (length ds))"
  by (simp add: py_int_def)

text \<open>The numeral of \<open>10 ^ k\<close> is a one followed by \<open>k\<close> zeros.\<close>

lemma dec_power10: "dec (10 ^ k) = CHR ''1'' # replicate k CHR ''0''"
proof (induction k)
  case 0
  then show ?case by (simp add: dec.simps [of "Suc 0"])
next
  case (Suc k)
  have "dec (10 ^ Suc k) = dec ((10 ^ Suc k) div 10) @ [''0123456789'' ! ((10 ^ Suc k) mod 10)]"
    by (subst dec.simps) simp
  then show ?case using Suc by (simp add: replicate_append_same)
qed

lemma length_zdec_power10: "length (zdec 0 (10 ^ k)) = Suc k"
  by (simp add: zdec_def dec_power10)

lemma takeWhile_zdec: "\<not> is_digit c \<Longrightarrow> takeWhile is_digit (zdec k n @ c # r) = zdec k n"
  using zdec_digits [of k n] by (simp add: takeWhile_append2)

lemma dropWhile_zdec: "\<not> is_digit c \<Longrightarrow> dropWhile is_digit (zdec k n @ c # r) = c # r"
  using zdec_digits [of k n] by (simp add: dropWhile_append2)

lemma takeWhile_zdec_end: "takeWhile is_digit (zdec k n) = zdec k n"
  using zdec_digits [of k n] by simp

lemma match_restart_canonical:
  "match_restart (''Restart program in '' @ zdec i m @ '':'' @ zdec j s) = Some (zdec i m, zdec j s)"
  by (simp add: match_restart_def skip_lit_def takeWhile_zdec dropWhile_zdec takeWhile_zdec_end
      zdec_not_empty is_digit_def)

lemma search_restart_canonical:
  "re_search match_restart
     (''Rate limit reached. Restart program in '' @ zdec i m @ '':'' @ zdec j s)
     = Some (zdec i m, zdec j s)"
proof -
  have "re_search match_restart (''Rate limit reached. '' @ r) = re_search match_restart r" for r
    by (simp add: match_restart_def skip_lit_def)
  from this [of "''Restart program in '' @ zdec i m @ '':'' @ zdec j s"]
  have "re_search match_restart
          (''Rate limit reached. Restart program in '' @ zdec i m @ '':'' @ zdec j s)
      = re_search match_restart (''Restart program in '' @ zdec i m @ '':'' @ zdec j s)"
    by simp
  also have "\<dots> = Some (zdec i m, zdec j s)"
    using match_restart_canonical [of i m j s] by simp
  finally show ?thesis .
qed

lemmas text_defs = strip_def is_space_def is_digit_def lower_def lower_char_def upper_latin1_def
  lower_latin1_def py_int_def digits_value_def digit_val_def int_max_str_digits_def skip_lit_def
  skip_blanks_def match_restart_def match_note_s_to_download_def match_notes_to_download_def
  zdec_def

lemmas step_defs = queue_log_def after0_def popen_def show_event_def start_thread_def Let_def

section \<open>The tables in lower case\<close>

text \<open>Both tables are lowered once; the tests on a line are then evaluated against the
  lowered entries.\<close>

lemma ignorable_patterns_lower:
  "map lower ignorable_patterns =
     [''failed to download note'',
      ''note.will be skipped'',
      ''linkednotebook.is not accessible'',
      ''remoteserver returned system error'',
      ''permission_denied'',
      ''not_found'',
      ''authentication failed'',
      ''shared notebook.not found'',
      ''business notebook.expired'']"
  by code_simp

lemma ignorable_patterns_v2_lower:
  "map lower ignorable_patterns_v2 =
     [''failed to download note'',
      ''note.*will be skipped'',
      ''linkednotebook.*is not accessible'',
      ''remoteserver returned system error'',
      ''permission_denied'',
      ''not_found'',
      ''authentication failed'',
      ''shared notebook.*not found'',
      ''business notebook.*expired'']"
  by code_simp

lemma list_ex_lower:
  "list_ex (\<lambda>pattern. contains l (lower pattern)) ps = list_ex (contains l) (map lower ps)"
  by (induction ps) simp_all

lemma is_ignorable_error_lowered [code]:
  "is_ignorable_error line =
     (let line_lower = lower line
      in list_ex (contains line_lower)
           [''failed to download note'',
            ''note.will be skipped'',
            ''linkednotebook.is not accessible'',
            ''remoteserver returned system error'',
            ''permission_denied'',
            ''not_found'',
            ''authentication failed'',
            ''shared notebook.not found'',
            ''business notebook.expired''])"
  by (simp only: is_ignorable_error_def list_ex_lower ignorable_patterns_lower)

lemma is_ignorable_error_v2_lowered [code]:
  "is_ignorable_error_v2 line =
     (let line_lower = lower line
      in if contains line_lower ''rate limit'' then False
         else list_ex (contains line_lower)
           [''failed to download note'',
            ''note.*will be skipped'',
            ''linkednotebook.*is not accessible'',
            ''remoteserver returned system error'',
            ''permission_denied'',
            ''not_found'',
            ''authentication failed'',
            ''shared notebook.*not found'',
            ''business notebook.*expired''])"
  by (simp only: is_ignorable_error_v2_def list_ex_lower ignorable_patterns_v2_lower)

section \<open>The loop\<close>

lemma run_lines_append:
  "run_lines f (xs @ ys) st =
     (case run_lines f xs st of
        (None, st') \<Rightarrow> run_lines f ys st'
      | (Some e, st') \<Rightarrow> (Some e, st'))"
  by (induction xs arbitrary: st) (auto split: prod.split option.split)

lemma run_lines_inv:
  assumes "\<And>out st. out \<in> set outs \<Longrightarrow> P st \<Longrightarrow> P (snd (f out st))" and "P st"
  shows "P (snd (run_lines f outs st))"
  using assms
proof (induction outs arbitrary: st)
  case Nil
  then show ?case by simp
next
  case (Cons out outs)
  have p: "P (snd (f out st))" using Cons.prems by simp
  show ?case
  proof (cases "f out st")
    case (Pair e st')
    then show ?thesis
      using p Cons.IH [of st'] Cons.prems(1) by (cases e) auto
  qed
qed

lemma run_lines_frame:
  assumes "\<And>out st. F (snd (f out st)) = F st"
  shows "F (snd (run_lines f outs st)) = F st"
  using run_lines_inv [of outs "\<lambda>s. F s = F st" f st] assms by simp

text \<open>A loop that raised nothing has run all its lines.\<close>

lemma run_lines_all:
  assumes "fst (run_lines f (xs @ ys) st) = None"
  shows "fst (run_lines f xs st) = None"
    and "run_lines f (xs @ ys) st = run_lines f ys (snd (run_lines f xs st))"
  using assms
  by (cases "run_lines f xs st"; cases "fst (run_lines f xs st)"; simp add: run_lines_append)+

section \<open>What one line does to the state\<close>

lemma sync_line_v2_raises:
  "fst (sync_line_v2 line st) =
     (if contains line ''Rate limit reached'' then
        (case re_search match_restart line of
           Some (mm, ss) \<Rightarrow>
             (case py_int mm of
                Inl e \<Rightarrow> Some e
              | Inr minutes \<Rightarrow> (case py_int ss of Inl e \<Rightarrow> Some e | Inr seconds \<Rightarrow> None))
         | None \<Rightarrow> None)
      else if contains line ''note(s) to download'' then
        (case re_search match_note_s_to_download line of
           Some g \<Rightarrow> (case py_int g of Inl e \<Rightarrow> Some e | Inr n \<Rightarrow> None)
         | None \<Rightarrow> None)
      else None)"
  by (simp add: sync_line_v2_def Let_def split: option.split prod.split sum.split)

lemma wait_time_sync_line_v2:
  "wait_time (snd (sync_line_v2 line st)) =
     (if contains line ''Rate limit reached'' then
        (case re_search match_restart line of
           Some (mm, ss) \<Rightarrow>
             (case py_int mm of
                Inl e \<Rightarrow> wait_time st
              | Inr minutes \<Rightarrow>
                  (case py_int ss of
                     Inl e \<Rightarrow> wait_time st
                   | Inr seconds \<Rightarrow> Some (minutes * 60 + seconds)))
         | None \<Rightarrow> wait_time st)
      else wait_time st)"
  by (simp add: sync_line_v2_def queue_log_def after0_def Let_def
      split: option.split prod.split sum.split)

lemma detected_sync_line_v2:
  "rate_limit_detected (snd (sync_line_v2 line st))
     = (rate_limit_detected st \<or> contains line ''Rate limit reached'')"
  by (simp add: sync_line_v2_def queue_log_def after0_def Let_def
      split: option.split prod.split sum.split)

lemma frame_sync_line_v2:
  "shown (snd (sync_line_v2 line st)) = shown st"
  "workers (snd (sync_line_v2 line st)) = workers st"
  "spawned (snd (sync_line_v2 line st)) = spawned st"
  "rate_limit_timer (snd (sync_line_v2 line st)) = rate_limit_timer st"
  "is_working (snd (sync_line_v2 line st)) = is_working st"
  "sync_phase (snd (sync_line_v2 line st)) = sync_phase st"
  by (simp_all add: sync_line_v2_def queue_log_def after0_def Let_def
      split: option.split prod.split sum.split)

lemma frame_sync_output_v2:
  "shown (snd (sync_output_v2 out st)) = shown st"
  "workers (snd (sync_output_v2 out st)) = workers st"
  "spawned (snd (sync_output_v2 out st)) = spawned st"
  "rate_limit_timer (snd (sync_output_v2 out st)) = rate_limit_timer st"
  "is_working (snd (sync_output_v2 out st)) = is_working st"
  "sync_phase (snd (sync_output_v2 out st)) = sync_phase st"
  by (simp_all add: sync_output_v2_def frame_sync_line_v2)

lemma frame_sync_run_v2:
  "shown (snd (run_lines sync_output_v2 ls st)) = shown st
   \<and> workers (snd (run_lines sync_output_v2 ls st)) = workers st
   \<and> spawned (snd (run_lines sync_output_v2 ls st)) = spawned st
   \<and> rate_limit_timer (snd (run_lines sync_output_v2 ls st)) = rate_limit_timer st
   \<and> is_working (snd (run_lines sync_output_v2 ls st)) = is_working st
   \<and> sync_phase (snd (run_lines sync_output_v2 ls st)) = sync_phase st"
  using run_lines_frame [of shown sync_output_v2 ls st]
    run_lines_frame [of workers sync_output_v2 ls st]
    run_lines_frame [of spawned sync_output_v2 ls st]
    run_lines_frame [of rate_limit_timer sync_output_v2 ls st]
    run_lines_frame [of is_working sync_output_v2 ls st]
    run_lines_frame [of sync_phase sync_output_v2 ls st]
  by (simp add: frame_sync_output_v2)

text \<open>Lines without a time token leave the wait time as it is, also when one of them
  raises.\<close>

lemma wait_time_run_v2:
  assumes "\<forall>out \<in> set ls. out \<noteq> [] \<longrightarrow> contains (strip out) ''Rate limit reached''
             \<longrightarrow> re_search match_restart (strip out) = None"
  shows "wait_time (snd (run_lines sync_output_v2 ls st)) = wait_time st"
proof -
  have "wait_time (snd (sync_output_v2 out s)) = wait_time s" if "out \<in> set ls" for out s
    using that assms by (simp add: sync_output_v2_def wait_time_sync_line_v2)
  then show ?thesis
    using run_lines_inv [of ls "\<lambda>s. wait_time s = wait_time st" sync_output_v2 st] by simp
qed

text \<open>The flag is set by the lines the loop has run; a loop that raised nothing has run
  them all.\<close>

lemma detected_run_v2:
  assumes "fst (run_lines sync_output_v2 ls st) = None"
  shows "rate_limit_detected (snd (run_lines sync_output_v2 ls st))
     = (rate_limit_detected st
        \<or> (\<exists>out \<in> set ls. out \<noteq> [] \<and> contains (strip out) ''Rate limit reached''))"
  using assms
proof (induction ls arbitrary: st)
  case Nil
  then show ?case by simp
next
  case (Cons out ls)
  show ?case
  proof (cases "sync_output_v2 out st")
    case (Pair e st')
    with Cons.prems have e: "e = None" by (cases e) simp_all
    have d: "rate_limit_detected st'
        = (rate_limit_detected st \<or> (out \<noteq> [] \<and> contains (strip out) ''Rate limit reached''))"
      using Pair detected_sync_line_v2 [of "strip out" st]
      by (auto simp: sync_output_v2_def split: if_splits)
    from Pair e Cons.prems have "fst (run_lines sync_output_v2 ls st') = None" by simp
    from Cons.IH [OF this] Pair e d show ?thesis by auto
  qed
qed

lemma detected_kept_v2:
  "rate_limit_detected st \<Longrightarrow> rate_limit_detected (snd (run_lines sync_output_v2 ls st))"
  using run_lines_inv [of ls rate_limit_detected sync_output_v2 st]
  by (simp add: sync_output_v2_def detected_sync_line_v2)

lemma sync_part_v2_frame:
  "shown (snd (sync_part_v2 sync st)) = shown st
   \<and> workers (snd (sync_part_v2 sync st)) = workers st
   \<and> spawned (snd (sync_part_v2 sync st)) = spawned st @ [Cmd_sync]
   \<and> rate_limit_timer (snd (sync_part_v2 sync st)) = rate_limit_timer st
   \<and> is_working (snd (sync_part_v2 sync st))
   \<and> sync_phase (snd (sync_part_v2 sync st)) = Phase_sync"
  by (simp add: sync_part_v2_def frame_sync_run_v2 Let_def queue_log_def after0_def popen_def)

lemma sync_part_v2_detected:
  assumes "fst (sync_part_v2 sync st) = None"
  shows "rate_limit_detected (snd (sync_part_v2 sync st))
     = (\<exists>out \<in> set (stream sync). out \<noteq> [] \<and> contains (strip out) ''Rate limit reached'')"
  using assms
  by (simp add: sync_part_v2_def detected_run_v2 Let_def queue_log_def after0_def popen_def)

lemma sync_part_v2_no_wait:
  assumes "\<forall>out \<in> set (stream sync). out \<noteq> [] \<longrightarrow> contains (strip out) ''Rate limit reached''
             \<longrightarrow> re_search match_restart (strip out) = None"
  shows "wait_time (snd (sync_part_v2 sync st)) = None"
  using assms
  by (simp add: sync_part_v2_def wait_time_run_v2 Let_def queue_log_def after0_def popen_def)

text \<open>With a rate limit detected and no usable duration, the worker shows the warning
  box and schedules the end of the job (once in the handler, once in \<^verbatim>\<open>finally\<close>).\<close>

lemma backup_task_v2_no_duration:
  assumes "fst (sync_part_v2 sync st) = None"
    and "rate_limit_detected (snd (sync_part_v2 sync st))"
    and "wait_time (snd (sync_part_v2 sync st)) = None
         \<or> wait_time (snd (sync_part_v2 sync st)) = Some 0"
  shows "backup_task_v2 sync export choice st
           = after0 Ui_backup_finish (after0 Ui_backup_finish
               (show_event (Ev_dialog Dlg_rate_limit_warning)
                 (after0 Ui_backup_rate_limit (snd (sync_part_v2 sync st)))))"
    and "backup_task_v2 sync export choice st
           = after0 Ui_backup_finish
               (handle_rate_limit None choice (snd (sync_part_v2 sync st)))"
  using assms
  by (cases "sync_part_v2 sync st";
      auto simp: backup_task_v2_def task_body_v2_def handle_exception_def
        handle_rate_limit_def Let_def)+

lemma no_duration_effects:
  assumes "backup_task_v2 sync export choice st
           = after0 Ui_backup_finish (after0 Ui_backup_finish
               (show_event (Ev_dialog Dlg_rate_limit_warning)
                 (after0 Ui_backup_rate_limit (snd (sync_part_v2 sync st)))))"
  shows "shown (backup_task_v2 sync export choice st)
            = shown st @ [Ev_dialog Dlg_rate_limit_warning]
        \<and> rate_limit_timer (backup_task_v2 sync export choice st) = rate_limit_timer st
        \<and> workers (backup_task_v2 sync export choice st) = workers st
        \<and> spawned (backup_task_v2 sync export choice st) = spawned st @ [Cmd_sync]"
  using sync_part_v2_frame [of sync st]
  by (simp add: assms after0_def show_event_def)

lemma marker_line_not_empty: "contains (strip out) ''Rate limit reached'' \<Longrightarrow> out \<noteq> []"
  by (auto simp: strip_def)

text \<open>A rate-limit line with a time token of numerals that \<^verbatim>\<open>int\<close> converts.\<close>

lemma token_line_v2:
  assumes "contains line ''Rate limit reached''"
    and "re_search match_restart line = Some (zdec i m, zdec j s)"
    and "length (zdec i m) \<le> int_max_str_digits"
    and "length (zdec j s) \<le> int_max_str_digits"
  shows "fst (sync_line_v2 line st) = None"
    and "wait_time (snd (sync_line_v2 line st)) = Some (60 * int m + int s)"
    and "rate_limit_detected (snd (sync_line_v2 line st))"
  using assms
  by (simp_all add: sync_line_v2_raises wait_time_sync_line_v2 detected_sync_line_v2 py_int_zdec)

lemma token_too_long_v2:
  assumes "contains line ''Rate limit reached''"
    and "re_search match_restart line = Some (mm, ss)"
    and "int_max_str_digits < length mm \<or> int_max_str_digits < length ss"
  shows "fst (sync_line_v2 line st) \<noteq> None"
  using assms
  by (auto simp: sync_line_v2_raises py_int_def)

lemma contains_marker_canonical:
  "contains (''Rate limit reached. Restart program in '' @ r) ''Rate limit reached''"
  by simp

section \<open>Properties of the rate-limit handling\<close>

text \<open>
  Claim C1, as the code has it. A line that contains \<^verbatim>\<open>Rate limit reached\<close> and in which
  the search finds the token \<^verbatim>\<open>Restart program in MM:SS\<close>, each numeral of at most 4300
  digits, with or without leading zeros, raises nothing and sets the wait time to
  \<open>60 * MM + SS\<close> seconds, whatever was known before; a longer numeral makes \<^verbatim>\<open>int\<close>
  raise. The line \<^verbatim>\<open>Rate limit reached. Restart program in MM:SS\<close> is such a line for every
  \<open>MM\<close> and \<open>SS\<close>. When the sync loop raises nothing, the stream has a rate-limit line and
  none of its rate-limit lines carries a token, the wait time is absent at the end of
  the stream, and the worker shows the warning box, schedules the end of the job and
  nothing else: no three-way box, no timer, no new worker, no export. (The wait time is
  kept from line to line, so the condition is on all the rate-limit lines of the stream,
  not on one.)
\<close>

theorem rate_limit_wait_time:
  "(contains line ''Rate limit reached''
      \<and> re_search match_restart line = Some (zdec i m, zdec j s)
      \<and> length (zdec i m) \<le> int_max_str_digits \<and> length (zdec j s) \<le> int_max_str_digits
    \<longrightarrow> fst (sync_line_v2 line st) = None
      \<and> wait_time (snd (sync_line_v2 line st)) = Some (60 * int m + int s))
   \<and> (contains line ''Rate limit reached''
      \<and> re_search match_restart line = Some (mm, ss)
      \<and> (int_max_str_digits < length mm \<or> int_max_str_digits < length ss)
    \<longrightarrow> fst (sync_line_v2 line st) \<noteq> None)
   \<and> contains (''Rate limit reached. Restart program in '' @ zdec i m @ '':'' @ zdec j s)
        ''Rate limit reached''
   \<and> re_search match_restart
        (''Rate limit reached. Restart program in '' @ zdec i m @ '':'' @ zdec j s)
       = Some (zdec i m, zdec j s)
   \<and> (fst (sync_part_v2 sync st) = None
       \<and> (\<exists>out \<in> set (stream sync). out \<noteq> [] \<and> contains (strip out) ''Rate limit reached'')
       \<and> (\<forall>out \<in> set (stream sync). out \<noteq> [] \<longrightarrow> contains (strip out) ''Rate limit reached''
             \<longrightarrow> re_search match_restart (strip out) = None)
      \<longrightarrow> wait_time (snd (sync_part_v2 sync st)) = None
        \<and> backup_task_v2 sync export choice st
            = after0 Ui_backup_finish (after0 Ui_backup_finish
                (show_event (Ev_dialog Dlg_rate_limit_warning)
                  (after0 Ui_backup_rate_limit (snd (sync_part_v2 sync st)))))
        \<and> shown (backup_task_v2 sync export choice st)
            = shown st @ [Ev_dialog Dlg_rate_limit_warning]
        \<and> rate_limit_timer (backup_task_v2 sync export choice st) = rate_limit_timer st
        \<and> workers (backup_task_v2 sync export choice st) = workers st
        \<and> spawned (backup_task_v2 sync export choice st) = spawned st @ [Cmd_sync])"
proof -
  have second: "wait_time (snd (sync_part_v2 sync st)) = None
        \<and> backup_task_v2 sync export choice st
            = after0 Ui_backup_finish (after0 Ui_backup_finish
                (show_event (Ev_dialog Dlg_rate_limit_warning)
                  (after0 Ui_backup_rate_limit (snd (sync_part_v2 sync st)))))
        \<and> shown (backup_task_v2 sync export choice st)
            = shown st @ [Ev_dialog Dlg_rate_limit_warning]
        \<and> rate_limit_timer (backup_task_v2 sync export choice st) = rate_limit_timer st
        \<and> workers (backup_task_v2 sync export choice st) = workers st
        \<and> spawned (backup_task_v2 sync export choice st) = spawned st @ [Cmd_sync]"
    if e: "fst (sync_part_v2 sync st) = None"
    and d: "\<exists>out \<in> set (stream sync). out \<noteq> [] \<and> contains (strip out) ''Rate limit reached''"
    and n: "\<forall>out \<in> set (stream sync). out \<noteq> [] \<longrightarrow> contains (strip out) ''Rate limit reached''
             \<longrightarrow> re_search match_restart (strip out) = None"
  proof -
    have w: "wait_time (snd (sync_part_v2 sync st)) = None"
      using n by (rule sync_part_v2_no_wait)
    have r: "rate_limit_detected (snd (sync_part_v2 sync st))"
      using d by (simp add: sync_part_v2_detected [OF e])
    have t: "backup_task_v2 sync export choice st
            = after0 Ui_backup_finish (after0 Ui_backup_finish
                (show_event (Ev_dialog Dlg_rate_limit_warning)
                  (after0 Ui_backup_rate_limit (snd (sync_part_v2 sync st)))))"
      using e r w by (simp add: backup_task_v2_no_duration(1))
    from w t no_duration_effects [OF t] show ?thesis by simp
  qed
  from token_line_v2(1,2) [of line i m j s st] token_too_long_v2 [of line mm ss st]
    contains_marker_canonical [of "zdec i m @ '':'' @ zdec j s"]
    search_restart_canonical [of i m j s] second
  show ?thesis by blast
qed

text \<open>The theorem at a stream whose only line reports the limit without a time, and at
  the line \<^verbatim>\<open>Restart program in 2:05\<close>.\<close>

theorem rate_limit_wait_time_witness:
  "contains (strip ''Rate limit reached.'') ''Rate limit reached''
   \<and> re_search match_restart (strip ''Rate limit reached.'') = None
   \<and> fst (sync_part_v2 \<lparr>stream = [''Rate limit reached.''], returncode = 1\<rparr> ready) = None
   \<and> contains ''Retry later. Rate limit reached. Restart program in 2:05 (UTC)''
        ''Rate limit reached''
   \<and> re_search match_restart ''Retry later. Rate limit reached. Restart program in 2:05 (UTC)''
       = Some (''2'', ''05'')
   \<and> wait_time (snd (sync_line_v2
        ''Retry later. Rate limit reached. Restart program in 2:05 (UTC)'' ready)) = Some 125
   \<and> shown (backup_task_v2 \<lparr>stream = [''Rate limit reached.''], returncode = 1\<rparr>
              \<lparr>stream = [], returncode = 0\<rparr> (Some True) ready)
       = [Ev_dialog Dlg_rate_limit_warning]
   \<and> workers (backup_task_v2 \<lparr>stream = [''Rate limit reached.''], returncode = 1\<rparr>
              \<lparr>stream = [], returncode = 0\<rparr> (Some True) ready) = 0"
proof -
  let ?sync = "\<lparr>stream = [''Rate limit reached.''], returncode = 1\<rparr>"
  let ?line = "''Retry later. Rate limit reached. Restart program in 2:05 (UTC)''"
  have d: "zdec 0 2 = ''2''" "zdec (Suc 0) 5 = ''05''"
    by (simp_all add: zdec_def dec.simps)
  have g: "contains (strip ''Rate limit reached.'') ''Rate limit reached''
      \<and> re_search match_restart (strip ''Rate limit reached.'') = None"
    by (simp add: strip_def is_space_def match_restart_def skip_lit_def)
  have e: "fst (sync_part_v2 ?sync ready) = None"
    by code_simp
  have h: "(\<exists>out \<in> set (stream ?sync). out \<noteq> [] \<and> contains (strip out) ''Rate limit reached'')
   \<and> (\<forall>out \<in> set (stream ?sync). out \<noteq> [] \<longrightarrow> contains (strip out) ''Rate limit reached''
         \<longrightarrow> re_search match_restart (strip out) = None)"
    using g by simp
  have l: "contains ?line ''Rate limit reached''"
    "re_search match_restart ?line = Some (''2'', ''05'')"
    by code_simp+
  have k: "length (zdec 0 2) \<le> int_max_str_digits" "length (zdec (Suc 0) 5) \<le> int_max_str_digits"
    by (simp_all add: d int_max_str_digits_def)
  note t = rate_limit_wait_time [of ?line 0 2 "Suc 0" 5 ready _ _ ?sync
      "\<lparr>stream = [], returncode = 0\<rparr>" "Some True"]
  from t l k have a: "wait_time (snd (sync_line_v2 ?line ready)) = Some (60 * int 2 + int 5)"
    unfolding d by blast
  from t e h have b: "shown (backup_task_v2 ?sync \<lparr>stream = [], returncode = 0\<rparr> (Some True) ready)
       = shown ready @ [Ev_dialog Dlg_rate_limit_warning]"
    by blast
  from t e h have c: "workers (backup_task_v2 ?sync \<lparr>stream = [], returncode = 0\<rparr> (Some True) ready)
       = workers ready"
    by blast
  from g e l a b c show ?thesis
    by (simp add: ready_def)
qed

text \<open>
  Claim C1 as stated fails on a stream with two rate-limit lines. The second line has the
  marker and no time token, yet the wait time at the end of the stream is the 125 seconds
  of the first line, the three-way box is shown, and with the answer "wait" the countdown
  is started.
\<close>

theorem rate_limit_carried_over_counterexample:
  "contains (strip ''Rate limit reached.'') ''Rate limit reached''
   \<and> re_search match_restart (strip ''Rate limit reached.'') = None
   \<and> wait_time (snd (sync_part_v2
        \<lparr>stream = [''Rate limit reached. Restart program in 2:05'', ''Rate limit reached.''],
           returncode = 1\<rparr> ready)) = Some 125
   \<and> shown (backup_task_v2
        \<lparr>stream = [''Rate limit reached. Restart program in 2:05'', ''Rate limit reached.''],
           returncode = 1\<rparr> \<lparr>stream = [], returncode = 0\<rparr> (Some True) ready)
       = [Ev_dialog (Dlg_rate_limit_choice 2 5)]
   \<and> rate_limit_timer (backup_task_v2
        \<lparr>stream = [''Rate limit reached. Restart program in 2:05'', ''Rate limit reached.''],
           returncode = 1\<rparr> \<lparr>stream = [], returncode = 0\<rparr> (Some True) ready)
       = Some (125, 124)"
  by code_simp

lemma run_lines_single: "snd (run_lines f [out] st) = snd (f out st)"
  by (cases "f out st"; cases "fst (f out st)"; simp)

text \<open>The wait time at the end of a loop that raised nothing is that of the last
  rate-limit line with a time token.\<close>

lemma last_token_run_v2:
  assumes e: "fst (run_lines sync_output_v2 (pre @ [out] @ post) st) = None"
    and m: "contains (strip out) ''Rate limit reached''"
    and t: "re_search match_restart (strip out) = Some (zdec i m, zdec j s)"
    and li: "length (zdec i m) \<le> int_max_str_digits"
    and lj: "length (zdec j s) \<le> int_max_str_digits"
    and n: "\<forall>out \<in> set post. out \<noteq> [] \<longrightarrow> contains (strip out) ''Rate limit reached''
             \<longrightarrow> re_search match_restart (strip out) = None"
  shows "wait_time (snd (run_lines sync_output_v2 (pre @ [out] @ post) st))
           = Some (60 * int m + int s)"
    and "rate_limit_detected (snd (run_lines sync_output_v2 (pre @ [out] @ post) st))"
proof -
  let ?s1 = "snd (run_lines sync_output_v2 pre st)"
  let ?s2 = "snd (run_lines sync_output_v2 [out] ?s1)"
  have a: "run_lines sync_output_v2 (pre @ [out] @ post) st
             = run_lines sync_output_v2 ([out] @ post) ?s1"
    using e by (rule run_lines_all(2))
  with e have e1: "fst (run_lines sync_output_v2 ([out] @ post) ?s1) = None" by simp
  have b: "run_lines sync_output_v2 ([out] @ post) ?s1 = run_lines sync_output_v2 post ?s2"
    using e1 by (rule run_lines_all(2))
  have ne: "out \<noteq> []" using m by (rule marker_line_not_empty)
  have s2: "?s2 = snd (sync_line_v2 (strip out) ?s1)"
    unfolding run_lines_single using ne by (simp add: sync_output_v2_def)
  have w2: "wait_time ?s2 = Some (60 * int m + int s)"
    unfolding s2 using m t li lj by (rule token_line_v2(2))
  have d2: "rate_limit_detected ?s2"
    unfolding s2 using m t li lj by (rule token_line_v2(3))
  show "wait_time (snd (run_lines sync_output_v2 (pre @ [out] @ post) st))
           = Some (60 * int m + int s)"
    unfolding a b using w2 wait_time_run_v2 [OF n, of ?s2] by simp
  show "rate_limit_detected (snd (run_lines sync_output_v2 (pre @ [out] @ post) st))"
    unfolding a b using d2 by (rule detected_kept_v2)
qed

lemma last_token_sync_part_v2:
  assumes "fst (sync_part_v2 sync st) = None"
    and "stream sync = pre @ [out] @ post"
    and "contains (strip out) ''Rate limit reached''"
    and "re_search match_restart (strip out) = Some (zdec i m, zdec j s)"
    and "length (zdec i m) \<le> int_max_str_digits"
    and "length (zdec j s) \<le> int_max_str_digits"
    and "\<forall>out \<in> set post. out \<noteq> [] \<longrightarrow> contains (strip out) ''Rate limit reached''
             \<longrightarrow> re_search match_restart (strip out) = None"
  shows "wait_time (snd (sync_part_v2 sync st)) = Some (60 * int m + int s)"
    and "rate_limit_detected (snd (sync_part_v2 sync st))"
  using assms last_token_run_v2 [of pre out post _ i m j s]
  by (simp_all add: sync_part_v2_def Let_def)

lemma handle_rate_limit_zero:
  "handle_rate_limit (Some 0) choice st = handle_rate_limit None choice st"
  by (simp add: handle_rate_limit_def Let_def)

text \<open>
  Claim C10, as the code has it. The handler called with a wait time of zero seconds is
  the handler called with no wait time. The wait time it is called with is the one of the
  whole sync loop: when the loop raises nothing and the last rate-limit line with a time
  token has the value zero (numerals of at most 4300 digits, so that \<^verbatim>\<open>int\<close> converts
  them), the wait time at the end of the stream is 0 and the worker does what it does
  without a duration: it shows the warning box and schedules the end of the job; no
  three-way box is shown, no timer is set, no worker is started and the export is not
  run. (A zero token replaces an earlier duration, which a line without a token does not;
  and a later non-zero token replaces the zero.)
\<close>

theorem zero_wait_handled_as_unknown:
  "handle_rate_limit (Some 0) choice st = handle_rate_limit None choice st
   \<and> (fst (sync_part_v2 sync st) = None
      \<and> stream sync = pre @ [out] @ post
      \<and> contains (strip out) ''Rate limit reached''
      \<and> re_search match_restart (strip out) = Some (zdec i 0, zdec j 0)
      \<and> length (zdec i 0) \<le> int_max_str_digits \<and> length (zdec j 0) \<le> int_max_str_digits
      \<and> (\<forall>out \<in> set post. out \<noteq> [] \<longrightarrow> contains (strip out) ''Rate limit reached''
             \<longrightarrow> re_search match_restart (strip out) = None)
     \<longrightarrow> wait_time (snd (sync_part_v2 sync st)) = Some 0
       \<and> backup_task_v2 sync export choice st
           = after0 Ui_backup_finish
               (handle_rate_limit None choice (snd (sync_part_v2 sync st)))
       \<and> backup_task_v2 sync export choice st
           = after0 Ui_backup_finish (after0 Ui_backup_finish
               (show_event (Ev_dialog Dlg_rate_limit_warning)
                 (after0 Ui_backup_rate_limit (snd (sync_part_v2 sync st)))))
       \<and> shown (backup_task_v2 sync export choice st)
            = shown st @ [Ev_dialog Dlg_rate_limit_warning]
       \<and> rate_limit_timer (backup_task_v2 sync export choice st) = rate_limit_timer st
       \<and> workers (backup_task_v2 sync export choice st) = workers st
       \<and> spawned (backup_task_v2 sync export choice st) = spawned st @ [Cmd_sync])"
proof -
  have job: "wait_time (snd (sync_part_v2 sync st)) = Some 0
       \<and> backup_task_v2 sync export choice st
           = after0 Ui_backup_finish
               (handle_rate_limit None choice (snd (sync_part_v2 sync st)))
       \<and> backup_task_v2 sync export choice st
           = after0 Ui_backup_finish (after0 Ui_backup_finish
               (show_event (Ev_dialog Dlg_rate_limit_warning)
                 (after0 Ui_backup_rate_limit (snd (sync_part_v2 sync st)))))
       \<and> shown (backup_task_v2 sync export choice st)
            = shown st @ [Ev_dialog Dlg_rate_limit_warning]
       \<and> rate_limit_timer (backup_task_v2 sync export choice st) = rate_limit_timer st
       \<and> workers (backup_task_v2 sync export choice st) = workers st
       \<and> spawned (backup_task_v2 sync export choice st) = spawned st @ [Cmd_sync]"
    if e: "fst (sync_part_v2 sync st) = None"
      and s: "stream sync = pre @ [out] @ post"
      and m: "contains (strip out) ''Rate limit reached''"
      and t: "re_search match_restart (strip out) = Some (zdec i 0, zdec j 0)"
      and li: "length (zdec i 0) \<le> int_max_str_digits"
      and lj: "length (zdec j 0) \<le> int_max_str_digits"
      and n: "\<forall>out \<in> set post. out \<noteq> [] \<longrightarrow> contains (strip out) ''Rate limit reached''
             \<longrightarrow> re_search match_restart (strip out) = None"
  proof -
    have w: "wait_time (snd (sync_part_v2 sync st)) = Some 0"
      using last_token_sync_part_v2(1) [OF e s m t li lj n] by simp
    have r: "rate_limit_detected (snd (sync_part_v2 sync st))"
      using e s m t li lj n by (rule last_token_sync_part_v2(2))
    have a: "backup_task_v2 sync export choice st
           = after0 Ui_backup_finish
               (handle_rate_limit None choice (snd (sync_part_v2 sync st)))"
      using e r w by (simp add: backup_task_v2_no_duration(2))
    have b: "backup_task_v2 sync export choice st
           = after0 Ui_backup_finish (after0 Ui_backup_finish
               (show_event (Ev_dialog Dlg_rate_limit_warning)
                 (after0 Ui_backup_rate_limit (snd (sync_part_v2 sync st)))))"
      using e r w by (simp add: backup_task_v2_no_duration(1))
    from w a b no_duration_effects [OF b] show ?thesis by simp
  qed
  from handle_rate_limit_zero [of choice st] job show ?thesis by blast
qed

text \<open>The theorem at a stream of two rate-limit lines, the first with the token
  \<^verbatim>\<open>2:05\<close>, the second with the token \<^verbatim>\<open>0:00\<close>.\<close>

theorem zero_wait_handled_as_unknown_witness:
  "fst (sync_part_v2
      \<lparr>stream = [''Rate limit reached. Restart program in 2:05'',
                 ''Rate limit reached. Restart program in 0:00''], returncode = 1\<rparr> ready) = None
   \<and> contains (strip ''Rate limit reached. Restart program in 0:00'') ''Rate limit reached''
   \<and> re_search match_restart (strip ''Rate limit reached. Restart program in 0:00'')
       = Some (''0'', ''00'')
   \<and> wait_time (snd (sync_part_v2
      \<lparr>stream = [''Rate limit reached. Restart program in 2:05'',
                 ''Rate limit reached. Restart program in 0:00''], returncode = 1\<rparr> ready))
       = Some 0
   \<and> shown (backup_task_v2
      \<lparr>stream = [''Rate limit reached. Restart program in 2:05'',
                 ''Rate limit reached. Restart program in 0:00''], returncode = 1\<rparr>
      \<lparr>stream = [], returncode = 0\<rparr> (Some True) ready)
       = [Ev_dialog Dlg_rate_limit_warning]
   \<and> rate_limit_timer (backup_task_v2
      \<lparr>stream = [''Rate limit reached. Restart program in 2:05'',
                 ''Rate limit reached. Restart program in 0:00''], returncode = 1\<rparr>
      \<lparr>stream = [], returncode = 0\<rparr> (Some True) ready) = None"
proof -
  let ?a = "''Rate limit reached. Restart program in 2:05''"
  let ?b = "''Rate limit reached. Restart program in 0:00''"
  let ?sync = "\<lparr>stream = [?a, ?b], returncode = 1\<rparr>"
  let ?export = "\<lparr>stream = [], returncode = 0\<rparr>"
  have d: "zdec 0 0 = ''0''" "zdec (Suc 0) 0 = ''00''"
    by (simp_all add: zdec_def dec.simps)
  have e: "fst (sync_part_v2 ?sync ready) = None"
    by code_simp
  have s: "stream ?sync = [?a] @ [?b] @ []"
    by simp
  have m: "contains (strip ?b) ''Rate limit reached''"
    by code_simp
  have t: "re_search match_restart (strip ?b) = Some (''0'', ''00'')"
    by code_simp
  have l: "length (zdec 0 0) \<le> int_max_str_digits" "length (zdec (Suc 0) 0) \<le> int_max_str_digits"
    by (simp_all add: d int_max_str_digits_def)
  have n: "\<forall>out \<in> set []. out \<noteq> [] \<longrightarrow> contains (strip out) ''Rate limit reached''
             \<longrightarrow> re_search match_restart (strip out) = None"
    by simp
  note z = zero_wait_handled_as_unknown [of "Some True" ready ?sync "[?a]" ?b "[]" 0 "Suc 0" ?export]
  from z e s m t l n have w: "wait_time (snd (sync_part_v2 ?sync ready)) = Some 0"
    unfolding d by blast
  from z e s m t l n have sh: "shown (backup_task_v2 ?sync ?export (Some True) ready)
            = shown ready @ [Ev_dialog Dlg_rate_limit_warning]"
    unfolding d by blast
  from z e s m t l n have ti: "rate_limit_timer (backup_task_v2 ?sync ?export (Some True) ready)
            = rate_limit_timer ready"
    unfolding d by blast
  from e m t w sh ti show ?thesis
    by (simp add: ready_def)
qed

text \<open>
  Claim C10 as stated fails in both directions. A line with the token \<^verbatim>\<open>0:00\<close> that is
  followed by a line with the token \<^verbatim>\<open>2:05\<close> leaves a wait time of 125 seconds: the
  three-way box is offered and, with the answer "wait", the countdown is started. And a
  \<^verbatim>\<open>0:00\<close> line is not handled as a line without a token: after a \<^verbatim>\<open>2:05\<close> line the first
  gives the warning box, the second the three-way box.
\<close>

theorem zero_wait_overridden_counterexample:
  "re_search match_restart (strip ''Rate limit reached. Restart program in 0:00'')
       = Some (''0'', ''00'')
   \<and> shown (backup_task_v2
      \<lparr>stream = [''Rate limit reached. Restart program in 0:00'',
                 ''Rate limit reached. Restart program in 2:05''], returncode = 1\<rparr>
      \<lparr>stream = [], returncode = 0\<rparr> (Some True) ready)
       = [Ev_dialog (Dlg_rate_limit_choice 2 5)]
   \<and> rate_limit_timer (backup_task_v2
      \<lparr>stream = [''Rate limit reached. Restart program in 0:00'',
                 ''Rate limit reached. Restart program in 2:05''], returncode = 1\<rparr>
      \<lparr>stream = [], returncode = 0\<rparr> (Some True) ready) = Some (125, 124)
   \<and> shown (backup_task_v2
      \<lparr>stream = [''Rate limit reached. Restart program in 2:05'',
                 ''Rate limit reached. Restart program in 0:00''], returncode = 1\<rparr>
      \<lparr>stream = [], returncode = 0\<rparr> (Some True) ready)
       = [Ev_dialog Dlg_rate_limit_warning]
   \<and> shown (backup_task_v2
      \<lparr>stream = [''Rate limit reached. Restart program in 2:05'',
                 ''Rate limit reached.''], returncode = 1\<rparr>
      \<lparr>stream = [], returncode = 0\<rparr> (Some True) ready)
       = [Ev_dialog (Dlg_rate_limit_choice 2 5)]"
  by code_simp

section \<open>The sync phase of \<^verbatim>\<open>evernote_backup_gui.py\<close>\<close>

lemma sync_line_raises:
  "fst (sync_line line st) =
     (if contains line ''notes to download'' then
        (case re_search match_notes_to_download line of
           Some g \<Rightarrow> (case py_int g of Inl e \<Rightarrow> Some e | Inr n \<Rightarrow> None)
         | None \<Rightarrow> None)
      else None)"
  by (simp add: sync_line_def Let_def split: option.split sum.split)

lemma sync_line_returns: "(fst (sync_line line st) = None) = (\<not> total_too_long line)"
  by (simp add: sync_line_raises total_too_long_def py_int_def split: option.split)

lemma frame_sync_line:
  "shown (snd (sync_line line st)) = shown st"
  "workers (snd (sync_line line st)) = workers st"
  "spawned (snd (sync_line line st)) = spawned st"
  "rate_limit_timer (snd (sync_line line st)) = rate_limit_timer st"
  "is_working (snd (sync_line line st)) = is_working st"
  "sync_phase (snd (sync_line line st)) = sync_phase st"
  "current_note (snd (sync_line line st)) = current_note st"
  by (auto simp: sync_line_def queue_log_def after0_def Let_def
      split: option.split sum.split)

lemma frame_sync_output:
  "shown (snd (sync_output out st)) = shown st"
  "workers (snd (sync_output out st)) = workers st"
  "spawned (snd (sync_output out st)) = spawned st"
  "rate_limit_timer (snd (sync_output out st)) = rate_limit_timer st"
  "is_working (snd (sync_output out st)) = is_working st"
  "sync_phase (snd (sync_output out st)) = sync_phase st"
  "current_note (snd (sync_output out st)) = current_note st"
  by (simp_all add: sync_output_def frame_sync_line)

lemma frame_sync_run:
  "shown (snd (run_lines sync_output ls st)) = shown st
   \<and> workers (snd (run_lines sync_output ls st)) = workers st
   \<and> spawned (snd (run_lines sync_output ls st)) = spawned st
   \<and> rate_limit_timer (snd (run_lines sync_output ls st)) = rate_limit_timer st
   \<and> is_working (snd (run_lines sync_output ls st)) = is_working st
   \<and> sync_phase (snd (run_lines sync_output ls st)) = sync_phase st
   \<and> current_note (snd (run_lines sync_output ls st)) = current_note st"
  using run_lines_frame [of shown sync_output ls st]
    run_lines_frame [of workers sync_output ls st]
    run_lines_frame [of spawned sync_output ls st]
    run_lines_frame [of rate_limit_timer sync_output ls st]
    run_lines_frame [of is_working sync_output ls st]
    run_lines_frame [of sync_phase sync_output ls st]
    run_lines_frame [of current_note sync_output ls st]
  by (simp add: frame_sync_output)

lemma frame_export_line:
  "shown (export_line line st) = shown st"
  "workers (export_line line st) = workers st"
  "spawned (export_line line st) = spawned st"
  "rate_limit_timer (export_line line st) = rate_limit_timer st"
  "is_working (export_line line st) = is_working st"
  "sync_phase (export_line line st) = sync_phase st"
  "total_notes (export_line line st) = total_notes st"
  by (simp_all add: export_line_def queue_log_def after0_def Let_def)

lemma frame_export_fold:
  "shown (fold export_output ls st) = shown st
   \<and> workers (fold export_output ls st) = workers st
   \<and> spawned (fold export_output ls st) = spawned st
   \<and> rate_limit_timer (fold export_output ls st) = rate_limit_timer st
   \<and> is_working (fold export_output ls st) = is_working st
   \<and> sync_phase (fold export_output ls st) = sync_phase st
   \<and> total_notes (fold export_output ls st) = total_notes st"
  by (induction ls arbitrary: st) (simp_all add: export_output_def frame_export_line)

text \<open>The first part of the worker, whether its loop raised or not.\<close>

lemma sync_part_fst:
  "fst (sync_part sync st) =
     fst (run_lines sync_output (stream sync)
       ((popen Cmd_sync (after0 (Ui_set_progress_detail D_syncing)
          (after0 (Ui_set_status St_syncing Sev_warning)
            ((queue_log Log_output_dir (queue_log Log_database (queue_log Log_start
               (after0 Ui_backup_start (st\<lparr>is_working := True\<rparr>)))))
             \<lparr>sync_phase := Phase_sync\<rparr>))))
        \<lparr>failed_notes := [], rate_limit_detected := False\<rparr>))"
  by (simp add: sync_part_def Let_def split: prod.split option.split)

lemma sync_part_frame:
  "shown (snd (sync_part sync st)) = shown st
   \<and> workers (snd (sync_part sync st)) = workers st
   \<and> spawned (snd (sync_part sync st)) = spawned st @ [Cmd_sync]
   \<and> rate_limit_timer (snd (sync_part sync st)) = rate_limit_timer st
   \<and> is_working (snd (sync_part sync st))
   \<and> sync_phase (snd (sync_part sync st)) = Phase_sync
   \<and> current_note (snd (sync_part sync st)) = current_note st"
proof -
  let ?s = "(popen Cmd_sync (after0 (Ui_set_progress_detail D_syncing)
          (after0 (Ui_set_status St_syncing Sev_warning)
            ((queue_log Log_output_dir (queue_log Log_database (queue_log Log_start
               (after0 Ui_backup_start (st\<lparr>is_working := True\<rparr>)))))
             \<lparr>sync_phase := Phase_sync\<rparr>))))
        \<lparr>failed_notes := [], rate_limit_detected := False\<rparr>"
  show ?thesis
    using frame_sync_run [of "stream sync" ?s]
    by (cases "run_lines sync_output (stream sync) ?s";
        cases "fst (run_lines sync_output (stream sync) ?s)")
       (simp_all add: sync_part_def Let_def queue_log_def after0_def popen_def)
qed

lemma sync_part_returncode: "sync_part (sync\<lparr>returncode := rc\<rparr>) st = sync_part sync st"
  by (simp add: sync_part_def)

lemma export_part_spawned:
  "spawned (snd (export_part export st)) = spawned st @ [Cmd_export]"
  by (simp add: export_part_def frame_export_fold Let_def queue_log_def after0_def popen_def)

lemma backup_task_spawned:
  "spawned (backup_task sync export st)
     = spawned st @ (if fst (sync_part sync st) = None then [Cmd_sync, Cmd_export]
                     else [Cmd_sync])"
proof (cases "sync_part sync st")
  case (Pair e s)
  have f: "spawned s = spawned st @ [Cmd_sync]"
    using sync_part_frame [of sync st] Pair by simp
  show ?thesis
  proof (cases e)
    case None
    with Pair f export_part_spawned [of export s] show ?thesis
      by (cases "export_part export s")
         (auto simp: backup_task_def task_body_def handle_exception_def after0_def
            split: option.split)
  next
    case (Some a)
    with Pair f show ?thesis
      by (simp add: backup_task_def task_body_def handle_exception_def after0_def)
  qed
qed

text \<open>
  Claim C3 on \<^verbatim>\<open>evernote_backup_gui.py\<close>: the worker never reads the exit code of the
  sync process, so it does the same whatever that code is, and when its sync loop raised
  nothing it always goes on to start the export. With a sync that prints nothing and
  exits with code 1, and an export that exits with code 0, the job ends with the
  completion box; no error is shown.
\<close>

theorem sync_exit_code_ignored:
  "backup_task (sync\<lparr>returncode := rc\<rparr>) export st = backup_task sync export st
   \<and> spawned (backup_task sync export st)
       = spawned st @ (if fst (sync_part sync st) = None then [Cmd_sync, Cmd_export]
                       else [Cmd_sync])
   \<and> fst (sync_part \<lparr>stream = [], returncode = 1\<rparr> ready) = None
   \<and> spawned (run_job \<lparr>stream = [], returncode = 1\<rparr> \<lparr>stream = [], returncode = 0\<rparr> ready)
       = [Cmd_sync, Cmd_export]
   \<and> shown (run_job \<lparr>stream = [], returncode = 1\<rparr> \<lparr>stream = [], returncode = 0\<rparr> ready)
       = [Ev_status St_syncing Sev_warning, Ev_detail D_syncing,
          Ev_status St_exporting Sev_warning, Ev_detail D_exporting,
          Ev_status St_done Sev_success, Ev_detail D_done, Ev_dialog Dlg_backup_done,
          Ev_detail D_empty, Ev_numbers N_empty]
   \<and> job_succeeded (run_job \<lparr>stream = [], returncode = 1\<rparr> \<lparr>stream = [], returncode = 0\<rparr> ready)
   \<and> job_failed (run_job \<lparr>stream = [], returncode = 1\<rparr> \<lparr>stream = [], returncode = 0\<rparr> ready)
       = False"
proof -
  have a: "backup_task (sync\<lparr>returncode := rc\<rparr>) export st = backup_task sync export st"
    by (simp add: backup_task_def task_body_def sync_part_returncode)
  have b: "fst (sync_part \<lparr>stream = [], returncode = 1\<rparr> ready) = None
   \<and> spawned (run_job \<lparr>stream = [], returncode = 1\<rparr> \<lparr>stream = [], returncode = 0\<rparr> ready)
       = [Cmd_sync, Cmd_export]
   \<and> shown (run_job \<lparr>stream = [], returncode = 1\<rparr> \<lparr>stream = [], returncode = 0\<rparr> ready)
       = [Ev_status St_syncing Sev_warning, Ev_detail D_syncing,
          Ev_status St_exporting Sev_warning, Ev_detail D_exporting,
          Ev_status St_done Sev_success, Ev_detail D_done, Ev_dialog Dlg_backup_done,
          Ev_detail D_empty, Ev_numbers N_empty]
   \<and> job_succeeded (run_job \<lparr>stream = [], returncode = 1\<rparr> \<lparr>stream = [], returncode = 0\<rparr> ready)
   \<and> job_failed (run_job \<lparr>stream = [], returncode = 1\<rparr> \<lparr>stream = [], returncode = 0\<rparr> ready)
       = False"
    by code_simp
  from a b backup_task_spawned [of sync export st] show ?thesis by blast
qed

text \<open>The path of \<^verbatim>\<open>evernote_backup_gui 2.0.py\<close> reads the exit code: a sync loop that
  raised nothing and saw no rate-limit line, with a non-zero exit code, makes the worker
  raise before the export is started.\<close>

lemma sync_failure_v2:
  assumes "fst (sync_part_v2 sync st) = None"
    and "\<not> rate_limit_detected (snd (sync_part_v2 sync st))"
    and "returncode sync \<noteq> 0"
  shows "backup_task_v2 sync export choice st
           = after0 Ui_backup_finish
               (after0 (Ui_backup_error Sync_failed) (snd (sync_part_v2 sync st)))"
    and "spawned (backup_task_v2 sync export choice st) = spawned st @ [Cmd_sync]"
  using assms sync_part_v2_frame [of sync st]
  by (cases "sync_part_v2 sync st";
      simp add: backup_task_v2_def task_body_v2_def handle_exception_def after0_def)+

section \<open>Properties of \<^verbatim>\<open>start_backup\<close>\<close>







section \<open>The countdown\<close>

lemma timer_tick:
  assumes "rate_limit_timer st = Some (orig, int (Suc k))" and "ui_queue st = []"
  shows "rate_limit_timer (timer_fires st) = Some (orig, int k)
       \<and> ui_queue (timer_fires st) = []
       \<and> ticks_shown (timer_fires st) = Suc (ticks_shown st)
       \<and> workers (timer_fires st) = workers st"
  using assms
  by (simp add: timer_fires_def countdown_update_def drain_ui_v2_def step_defs ticks_shown_def
      del: of_nat_Suc)

lemma timer_last:
  assumes "rate_limit_timer st = Some (orig, 0)" and "ui_queue st = []"
  shows "rate_limit_timer (timer_fires st) = None
       \<and> ui_queue (timer_fires st) = []
       \<and> ticks_shown (timer_fires st) = ticks_shown st
       \<and> workers (timer_fires st) = Suc (workers st)
       \<and> total_notes (timer_fires st) = 0
       \<and> current_note (timer_fires st) = 0
       \<and> sync_phase (timer_fires st) = Phase_restart"
  using assms
  by (simp add: timer_fires_def countdown_update_def drain_ui_v2_def step_defs ticks_shown_def)

lemma countdown_runs_out:
  assumes "rate_limit_timer st = Some (orig, int k)" and "ui_queue st = []"
  shows "rate_limit_timer ((timer_fires ^^ Suc k) st) = None
       \<and> ticks_shown ((timer_fires ^^ Suc k) st) = ticks_shown st + k
       \<and> workers ((timer_fires ^^ Suc k) st) = Suc (workers st)
       \<and> total_notes ((timer_fires ^^ Suc k) st) = 0
       \<and> current_note ((timer_fires ^^ Suc k) st) = 0"
  using assms
proof (induction k arbitrary: st)
  case 0
  then show ?case using timer_last [of st orig] by simp
next
  case (Suc k)
  have step: "rate_limit_timer (timer_fires st) = Some (orig, int k)
       \<and> ui_queue (timer_fires st) = []
       \<and> ticks_shown (timer_fires st) = Suc (ticks_shown st)
       \<and> workers (timer_fires st) = workers st"
    using Suc.prems by (rule timer_tick)
  have "(timer_fires ^^ Suc (Suc k)) st = (timer_fires ^^ Suc k) (timer_fires st)"
    by (simp only: funpow_Suc_right o_apply)
  then show ?case
    using Suc.IH [of "timer_fires st"] step by simp
qed

text \<open>
  The countdown by itself, when every timer it arms is left to expire: a wait of
  \<open>k + 1\<close> seconds publishes \<open>k + 1\<close> ticks (the first at once, one per expiry after
  that), and the expiry after the last tick resets both counters and starts a new
  worker. This is what \<^verbatim>\<open>_auto_wait_and_retry\<close> is written to do.
\<close>

lemma countdown_left_alone:
  assumes "ui_queue st = []"
  shows "rate_limit_timer ((timer_fires ^^ Suc k) (drain_ui_v2 (auto_wait_and_retry (int (Suc k)) st))) = None
       \<and> ticks_shown ((timer_fires ^^ Suc k) (drain_ui_v2 (auto_wait_and_retry (int (Suc k)) st)))
           = ticks_shown st + Suc k
       \<and> workers ((timer_fires ^^ Suc k) (drain_ui_v2 (auto_wait_and_retry (int (Suc k)) st)))
           = Suc (workers st)
       \<and> total_notes ((timer_fires ^^ Suc k) (drain_ui_v2 (auto_wait_and_retry (int (Suc k)) st))) = 0
       \<and> current_note ((timer_fires ^^ Suc k) (drain_ui_v2 (auto_wait_and_retry (int (Suc k)) st))) = 0"
proof -
  let ?s = "drain_ui_v2 (auto_wait_and_retry (int (Suc k)) st)"
  have s: "rate_limit_timer ?s = Some (int (Suc k), int k) \<and> ui_queue ?s = []
       \<and> ticks_shown ?s = Suc (ticks_shown st) \<and> workers ?s = workers st"
    using assms
    by (simp add: auto_wait_and_retry_def countdown_update_def drain_ui_v2_def step_defs
        ticks_shown_def del: of_nat_Suc)
  then show ?thesis
    using countdown_runs_out [of ?s "int (Suc k)" k] by simp
qed

text \<open>
  Claim C2 on the job itself: the sync stream is the line
  \<^verbatim>\<open>Rate limit reached. Restart program in 2:05\<close> and the observer answers "wait". The
  worker publishes the first tick and arms the timer with 124 seconds left; it then
  returns through \<^verbatim>\<open>finally\<close>, which schedules \<^verbatim>\<open>_backup_ui_finish\<close>, and that callback
  cancels the armed timer and clears \<^verbatim>\<open>is_working\<close>. The observer has seen one tick, not
  125; no timer is left to expire, no worker is started, the sync runs once.
\<close>

theorem countdown_cancelled_by_finish:
  "rate_limit_timer (backup_task_v2
      \<lparr>stream = [''Rate limit reached. Restart program in 2:05''], returncode = 1\<rparr>
      \<lparr>stream = [], returncode = 0\<rparr> (Some True) ready) = Some (125, 124)
   \<and> shown (run_job_v2
      \<lparr>stream = [''Rate limit reached. Restart program in 2:05''], returncode = 1\<rparr>
      \<lparr>stream = [], returncode = 0\<rparr> (Some True) ready)
     = [Ev_dialog (Dlg_rate_limit_choice 2 5),
        Ev_status St_syncing Sev_warning, Ev_detail D_syncing,
        Ev_status St_rate_limit_reached Sev_warning,
        Ev_status St_rate_limit_waiting Sev_warning,
        Ev_detail (D_remaining 2 5), Ev_numbers (N_elapsed 0 0),
        Ev_detail D_empty, Ev_numbers N_empty]
   \<and> ticks_shown (run_job_v2
      \<lparr>stream = [''Rate limit reached. Restart program in 2:05''], returncode = 1\<rparr>
      \<lparr>stream = [], returncode = 0\<rparr> (Some True) ready) = 1
   \<and> rate_limit_timer (run_job_v2
      \<lparr>stream = [''Rate limit reached. Restart program in 2:05''], returncode = 1\<rparr>
      \<lparr>stream = [], returncode = 0\<rparr> (Some True) ready) = None
   \<and> is_working (run_job_v2
      \<lparr>stream = [''Rate limit reached. Restart program in 2:05''], returncode = 1\<rparr>
      \<lparr>stream = [], returncode = 0\<rparr> (Some True) ready) = False
   \<and> workers (run_job_v2
      \<lparr>stream = [''Rate limit reached. Restart program in 2:05''], returncode = 1\<rparr>
      \<lparr>stream = [], returncode = 0\<rparr> (Some True) ready) = 0
   \<and> spawned (run_job_v2
      \<lparr>stream = [''Rate limit reached. Restart program in 2:05''], returncode = 1\<rparr>
      \<lparr>stream = [], returncode = 0\<rparr> (Some True) ready) = [Cmd_sync]
   \<and> timer_fires (run_job_v2
      \<lparr>stream = [''Rate limit reached. Restart program in 2:05''], returncode = 1\<rparr>
      \<lparr>stream = [], returncode = 0\<rparr> (Some True) ready)
     = run_job_v2
      \<lparr>stream = [''Rate limit reached. Restart program in 2:05''], returncode = 1\<rparr>
      \<lparr>stream = [], returncode = 0\<rparr> (Some True) ready"
  by code_simp

section \<open>The callbacks, run in order\<close>

lemmas ui_defs = backup_ui_success_def backup_ui_error_def backup_ui_finish_def
  update_progress_info_def update_progress_info_v2_def backup_ui_rate_limit_def
  backup_ui_success_v2_def backup_ui_error_v2_def

lemma run_ui_v2_frame:
  "spawned (run_ui_v2 c st) = spawned st"
  "workers (run_ui_v2 c st) = workers st"
  "total_notes (run_ui_v2 c st) = total_notes st"
  "current_note (run_ui_v2 c st) = current_note st"
  "ui_queue (run_ui_v2 c st) = ui_queue st"
  "\<exists>es. shown (run_ui_v2 c st) = shown st @ es"
  by (cases c; simp add: ui_defs step_defs)+

lemma fold_run_ui_v2_frame:
  "spawned (fold run_ui_v2 q st) = spawned st
   \<and> workers (fold run_ui_v2 q st) = workers st
   \<and> total_notes (fold run_ui_v2 q st) = total_notes st
   \<and> current_note (fold run_ui_v2 q st) = current_note st
   \<and> ui_queue (fold run_ui_v2 q st) = ui_queue st
   \<and> (\<exists>es. shown (fold run_ui_v2 q st) = shown st @ es)"
proof (induction q arbitrary: st)
  case Nil
  then show ?case by simp
next
  case (Cons c q)
  obtain es where "shown (run_ui_v2 c st) = shown st @ es"
    using run_ui_v2_frame(6) by blast
  moreover obtain es' where "shown (fold run_ui_v2 q (run_ui_v2 c st)) = shown (run_ui_v2 c st) @ es'"
    using Cons.IH [of "run_ui_v2 c st"] by blast
  ultimately have "shown (fold run_ui_v2 (c # q) st) = shown st @ (es @ es')" by simp
  then show ?case using Cons.IH [of "run_ui_v2 c st"] by (auto simp: run_ui_v2_frame)
qed

lemma run_ui_frame:
  "spawned (run_ui c st) = spawned st"
  "workers (run_ui c st) = workers st"
  "total_notes (run_ui c st) = total_notes st"
  "current_note (run_ui c st) = current_note st"
  "ui_queue (run_ui c st) = ui_queue st"
  "\<exists>es. shown (run_ui c st) = shown st @ es"
  "\<exists>ms. log_queue (run_ui c st) = log_queue st @ ms"
  by (cases c; simp add: ui_defs step_defs)+

lemma fold_run_ui_frame:
  "spawned (fold run_ui q st) = spawned st
   \<and> workers (fold run_ui q st) = workers st
   \<and> total_notes (fold run_ui q st) = total_notes st
   \<and> current_note (fold run_ui q st) = current_note st
   \<and> ui_queue (fold run_ui q st) = ui_queue st
   \<and> (\<exists>es. shown (fold run_ui q st) = shown st @ es)
   \<and> (\<exists>ms. log_queue (fold run_ui q st) = log_queue st @ ms)"
proof (induction q arbitrary: st)
  case Nil
  then show ?case by simp
next
  case (Cons c q)
  obtain es where "shown (run_ui c st) = shown st @ es"
    using run_ui_frame(6) by blast
  moreover obtain es' where "shown (fold run_ui q (run_ui c st)) = shown (run_ui c st) @ es'"
    using Cons.IH [of "run_ui c st"] by blast
  ultimately have s: "shown (fold run_ui (c # q) st) = shown st @ (es @ es')" by simp
  obtain ms where "log_queue (run_ui c st) = log_queue st @ ms"
    using run_ui_frame(7) by blast
  moreover obtain ms' where "log_queue (fold run_ui q (run_ui c st)) = log_queue (run_ui c st) @ ms'"
    using Cons.IH [of "run_ui c st"] by blast
  ultimately have l: "log_queue (fold run_ui (c # q) st) = log_queue st @ (ms @ ms')" by simp
  from s l show ?case using Cons.IH [of "run_ui c st"] by (auto simp: run_ui_frame)
qed

lemma backup_ui_finish_fields:
  "rate_limit_timer (backup_ui_finish st) = None"
  "is_working (backup_ui_finish st) = False"
  "shown (backup_ui_finish st) = shown st @ [Ev_detail D_empty, Ev_numbers N_empty]"
  "spawned (backup_ui_finish st) = spawned st"
  "workers (backup_ui_finish st) = workers st"
  "log_queue (backup_ui_finish st) = log_queue st"
  by (cases "rate_limit_timer st"; simp add: backup_ui_finish_def step_defs)+

text \<open>A worker run that ends with an exception: the last two callbacks are the error
  and the end of the job.\<close>

lemma drain_ui_v2_error:
  assumes "ui_queue st = q @ [Ui_backup_error e, Ui_backup_finish]"
  shows "\<exists>es. shown (drain_ui_v2 st)
           = es @ [Ev_log (Log_error e), Ev_status St_failed Sev_error, Ev_detail D_error,
                   Ev_dialog (Dlg_backup_error e), Ev_detail D_empty, Ev_numbers N_empty]"
    and "spawned (drain_ui_v2 st) = spawned st"
    and "is_working (drain_ui_v2 st) = False"
    and "rate_limit_timer (drain_ui_v2 st) = None"
  using assms
  by (simp_all add: drain_ui_v2_def backup_ui_error_v2_def backup_ui_finish_fields step_defs
      fold_run_ui_v2_frame)

lemma drain_ui_error:
  assumes "ui_queue st = q @ [Ui_backup_error e, Ui_backup_finish]"
  shows "\<exists>es. shown (drain_ui st)
           = es @ [Ev_dialog (Dlg_backup_error e), Ev_detail D_empty, Ev_numbers N_empty]"
    and "\<exists>ms. log_queue (drain_ui st) = ms @ [Log_error e]"
    and "spawned (drain_ui st) = spawned st"
    and "is_working (drain_ui st) = False"
  using assms
  by (simp_all add: drain_ui_def backup_ui_error_def backup_ui_finish_fields step_defs
      fold_run_ui_frame)

lemma job_failed_suffix:
  "shown st = es @ [Ev_dialog (Dlg_backup_error e)] @ es' \<Longrightarrow> job_failed st"
  by (simp add: job_failed_def)

section \<open>What a run of the worker schedules\<close>

lemma control_after0:
  "control_calls (after0 c st) = control_calls st @ (if is_progress_call c then [] else [c])"
  by (simp add: control_calls_def after0_def)

lemma control_others:
  "control_calls (queue_log m st) = control_calls st"
  "control_calls (popen c st) = control_calls st"
  "control_calls (show_event e st) = control_calls st"
  by (simp_all add: control_calls_def step_defs)

lemma control_updates:
  "control_calls (st\<lparr>is_working := b\<rparr>) = control_calls st"
  "control_calls (st\<lparr>sync_phase := p\<rparr>) = control_calls st"
  "control_calls (st\<lparr>failed_notes := f\<rparr>) = control_calls st"
  "control_calls (st\<lparr>rate_limit_detected := b\<rparr>) = control_calls st"
  "control_calls (st\<lparr>wait_time := w\<rparr>) = control_calls st"
  "control_calls (st\<lparr>current_note := n\<rparr>) = control_calls st"
  "control_calls (st\<lparr>total_notes := n\<rparr>) = control_calls st"
  "control_calls (st\<lparr>rate_limit_timer := t\<rparr>) = control_calls st"
  by (simp_all add: control_calls_def)

lemma control_sync_line: "control_calls (snd (sync_line line st)) = control_calls st"
  by (auto simp: sync_line_def Let_def control_after0 control_others control_updates
      is_progress_call_def split: option.split sum.split)

lemma control_export_line: "control_calls (export_line line st) = control_calls st"
  by (simp add: export_line_def Let_def control_after0 control_others control_updates
      is_progress_call_def)

lemma control_sync_line_v2: "control_calls (snd (sync_line_v2 line st)) = control_calls st"
  by (auto simp: sync_line_v2_def Let_def control_after0 control_others control_updates
      is_progress_call_def split: option.split prod.split sum.split)

lemma control_export_line_v2: "control_calls (export_line_v2 line st) = control_calls st"
  by (simp add: export_line_v2_def Let_def control_after0 control_others control_updates
      is_progress_call_def)

lemma control_folds:
  "control_calls (fold export_output ls st) = control_calls st"
  "control_calls (fold export_output_v2 ls st) = control_calls st"
  by (induction ls arbitrary: st)
     (simp_all add: export_output_def export_output_v2_def
        control_export_line control_export_line_v2)

lemma control_runs:
  "control_calls (snd (run_lines sync_output ls st)) = control_calls st"
  "control_calls (snd (run_lines sync_output_v2 ls st)) = control_calls st"
  using run_lines_frame [of control_calls sync_output ls st]
    run_lines_frame [of control_calls sync_output_v2 ls st]
  by (simp_all add: sync_output_def sync_output_v2_def control_sync_line control_sync_line_v2)

lemmas control_simps = control_after0 control_others control_updates control_folds
  control_runs is_progress_call_def Let_def

lemma control_sync_part:
  "control_calls (snd (sync_part sync st)) = control_calls st @ [Ui_backup_start]"
proof -
  let ?s = "(popen Cmd_sync (after0 (Ui_set_progress_detail D_syncing)
          (after0 (Ui_set_status St_syncing Sev_warning)
            ((queue_log Log_output_dir (queue_log Log_database (queue_log Log_start
               (after0 Ui_backup_start (st\<lparr>is_working := True\<rparr>)))))
             \<lparr>sync_phase := Phase_sync\<rparr>))))
        \<lparr>failed_notes := [], rate_limit_detected := False\<rparr>"
  have "control_calls (snd (run_lines sync_output (stream sync) ?s))
          = control_calls st @ [Ui_backup_start]"
    by (simp add: control_simps)
  then show ?thesis
    by (cases "run_lines sync_output (stream sync) ?s";
        cases "fst (run_lines sync_output (stream sync) ?s)")
       (simp_all add: sync_part_def Let_def control_others)
qed

lemma control_sync_part_v2:
  "control_calls (snd (sync_part_v2 sync st)) = control_calls st @ [Ui_backup_start]"
  by (simp add: sync_part_v2_def control_simps)

lemma export_part_failed:
  assumes "returncode export \<noteq> 0"
  shows "fst (export_part export st) = Some (Export_failed_code (returncode export))"
    and "control_calls (snd (export_part export st)) = control_calls st"
  using assms
  by (simp_all add: export_part_def control_simps)

lemma frame_export_line_v2:
  "shown (export_line_v2 line st) = shown st"
  "workers (export_line_v2 line st) = workers st"
  "spawned (export_line_v2 line st) = spawned st"
  "rate_limit_timer (export_line_v2 line st) = rate_limit_timer st"
  "is_working (export_line_v2 line st) = is_working st"
  "sync_phase (export_line_v2 line st) = sync_phase st"
  "total_notes (export_line_v2 line st) = total_notes st"
  by (simp_all add: export_line_v2_def queue_log_def after0_def Let_def)

lemma frame_export_fold_v2:
  "shown (fold export_output_v2 ls st) = shown st
   \<and> workers (fold export_output_v2 ls st) = workers st
   \<and> spawned (fold export_output_v2 ls st) = spawned st
   \<and> rate_limit_timer (fold export_output_v2 ls st) = rate_limit_timer st
   \<and> is_working (fold export_output_v2 ls st) = is_working st
   \<and> sync_phase (fold export_output_v2 ls st) = sync_phase st
   \<and> total_notes (fold export_output_v2 ls st) = total_notes st"
  by (induction ls arbitrary: st) (simp_all add: export_output_v2_def frame_export_line_v2)

lemma export_part_v2_failed:
  assumes "returncode export \<noteq> 0"
  shows "fst (export_part_v2 export st) = Some Export_failed"
    and "control_calls (snd (export_part_v2 export st)) = control_calls st"
  using assms
  by (simp_all add: export_part_v2_def control_simps)

lemma export_part_v2_spawned:
  "spawned (snd (export_part_v2 export st)) = spawned st @ [Cmd_export]"
  by (simp add: export_part_v2_def frame_export_fold_v2 step_defs)

text \<open>In \<^verbatim>\<open>evernote_backup_gui 2.0.py\<close> a sync that ends with a non-zero exit code and no
  rate-limit line raises: the error is scheduled, the export is not started, and the UI
  thread publishes the status of severity "error".\<close>

lemma sync_failure_job_v2:
  assumes "fst (sync_part_v2 sync st) = None"
    and "\<not> rate_limit_detected (snd (sync_part_v2 sync st))"
    and "returncode sync \<noteq> 0"
  shows "control_calls (backup_task_v2 sync export choice st)
           = control_calls st @ [Ui_backup_start, Ui_backup_error Sync_failed, Ui_backup_finish]"
    and "spawned (run_job_v2 sync export choice st) = spawned st @ [Cmd_sync]"
    and "\<exists>es. shown (run_job_v2 sync export choice st)
           = es @ [Ev_log (Log_error Sync_failed), Ev_status St_failed Sev_error, Ev_detail D_error,
                   Ev_dialog (Dlg_backup_error Sync_failed), Ev_detail D_empty, Ev_numbers N_empty]"
    and "job_failed (run_job_v2 sync export choice st)"
proof -
  have t: "backup_task_v2 sync export choice st
           = after0 Ui_backup_finish
               (after0 (Ui_backup_error Sync_failed) (snd (sync_part_v2 sync st)))"
    using assms by (rule sync_failure_v2(1))
  show "control_calls (backup_task_v2 sync export choice st)
           = control_calls st @ [Ui_backup_start, Ui_backup_error Sync_failed, Ui_backup_finish]"
    by (simp add: t control_after0 is_progress_call_def control_sync_part_v2)
  have q: "ui_queue (backup_task_v2 sync export choice st)
      = ui_queue (snd (sync_part_v2 sync st)) @ [Ui_backup_error Sync_failed, Ui_backup_finish]"
    by (simp add: t after0_def)
  show "spawned (run_job_v2 sync export choice st) = spawned st @ [Cmd_sync]"
    using drain_ui_v2_error(2) [OF q] sync_part_v2_frame [of sync st]
    by (simp add: run_job_v2_def t after0_def)
  show s: "\<exists>es. shown (run_job_v2 sync export choice st)
           = es @ [Ev_log (Log_error Sync_failed), Ev_status St_failed Sev_error, Ev_detail D_error,
                   Ev_dialog (Dlg_backup_error Sync_failed), Ev_detail D_empty, Ev_numbers N_empty]"
    using drain_ui_v2_error(1) [OF q] by (simp add: run_job_v2_def)
  then show "job_failed (run_job_v2 sync export choice st)"
    by (auto simp: job_failed_def)
qed

section \<open>A failed export\<close>

lemma export_failure_main:
  assumes "returncode export \<noteq> 0" and "fst (sync_part sync st) = None"
  shows "backup_task sync export st
           = after0 Ui_backup_finish
               (after0 (Ui_backup_error (Export_failed_code (returncode export)))
                  (snd (export_part export (snd (sync_part sync st)))))"
    and "control_calls (backup_task sync export st)
           = control_calls st @ [Ui_backup_start,
               Ui_backup_error (Export_failed_code (returncode export)), Ui_backup_finish]"
    and "\<exists>es. shown (run_job sync export st)
           = es @ [Ev_dialog (Dlg_backup_error (Export_failed_code (returncode export))),
                   Ev_detail D_empty, Ev_numbers N_empty]"
    and "\<exists>ms. log_queue (run_job sync export st)
           = ms @ [Log_error (Export_failed_code (returncode export))]"
    and "job_failed (run_job sync export st)"
    and "is_working (run_job sync export st) = False"
proof -
  let ?e = "Export_failed_code (returncode export)"
  let ?s = "snd (export_part export (snd (sync_part sync st)))"
  show t: "backup_task sync export st = after0 Ui_backup_finish (after0 (Ui_backup_error ?e) ?s)"
    using export_part_failed(1) [OF assms(1), of "snd (sync_part sync st)"] assms(2)
    by (cases "sync_part sync st"; cases "export_part export (snd (sync_part sync st))")
       (simp add: backup_task_def task_body_def handle_exception_def)
  show "control_calls (backup_task sync export st)
           = control_calls st @ [Ui_backup_start, Ui_backup_error ?e, Ui_backup_finish]"
    using export_part_failed(2) [OF assms(1), of "snd (sync_part sync st)"]
    by (simp add: t control_after0 is_progress_call_def control_sync_part)
  have q: "ui_queue (backup_task sync export st) = ui_queue ?s @ [Ui_backup_error ?e, Ui_backup_finish]"
    by (simp add: t after0_def)
  show s: "\<exists>es. shown (run_job sync export st)
           = es @ [Ev_dialog (Dlg_backup_error ?e), Ev_detail D_empty, Ev_numbers N_empty]"
    using drain_ui_error(1) [OF q] by (simp add: run_job_def)
  show "\<exists>ms. log_queue (run_job sync export st) = ms @ [Log_error ?e]"
    using drain_ui_error(2) [OF q] by (simp add: run_job_def)
  show "job_failed (run_job sync export st)"
    using s by (auto simp: job_failed_def)
  show "is_working (run_job sync export st) = False"
    using drain_ui_error(4) [OF q] by (simp add: run_job_def)
qed

lemma export_failure_v2:
  assumes "returncode export \<noteq> 0" and "returncode sync = 0"
    and "fst (sync_part_v2 sync st) = None"
    and "\<not> rate_limit_detected (snd (sync_part_v2 sync st))"
  shows "control_calls (backup_task_v2 sync export choice st)
           = control_calls st @ [Ui_backup_start, Ui_backup_error Export_failed, Ui_backup_finish]"
    and "\<exists>es. shown (run_job_v2 sync export choice st)
           = es @ [Ev_log (Log_error Export_failed), Ev_status St_failed Sev_error, Ev_detail D_error,
                   Ev_dialog (Dlg_backup_error Export_failed), Ev_detail D_empty, Ev_numbers N_empty]"
    and "job_failed (run_job_v2 sync export choice st)"
    and "is_working (run_job_v2 sync export choice st) = False"
proof -
  let ?s = "snd (export_part_v2 export (snd (sync_part_v2 sync st)))"
  have t: "backup_task_v2 sync export choice st
      = after0 Ui_backup_finish (after0 (Ui_backup_error Export_failed) ?s)"
    using export_part_v2_failed(1) [OF assms(1), of "snd (sync_part_v2 sync st)"] assms(2,3,4)
    by (cases "sync_part_v2 sync st";
        cases "export_part_v2 export (snd (sync_part_v2 sync st))")
       (simp add: backup_task_v2_def task_body_v2_def handle_exception_def Let_def)
  show "control_calls (backup_task_v2 sync export choice st)
           = control_calls st @ [Ui_backup_start, Ui_backup_error Export_failed, Ui_backup_finish]"
    using export_part_v2_failed(2) [OF assms(1), of "snd (sync_part_v2 sync st)"]
    by (simp add: t control_after0 is_progress_call_def control_sync_part_v2)
  have q: "ui_queue (backup_task_v2 sync export choice st)
      = ui_queue ?s @ [Ui_backup_error Export_failed, Ui_backup_finish]"
    by (simp add: t after0_def)
  show s: "\<exists>es. shown (run_job_v2 sync export choice st)
           = es @ [Ev_log (Log_error Export_failed), Ev_status St_failed Sev_error, Ev_detail D_error,
                   Ev_dialog (Dlg_backup_error Export_failed), Ev_detail D_empty, Ev_numbers N_empty]"
    using drain_ui_v2_error(1) [OF q] by (simp add: run_job_v2_def)
  then show "job_failed (run_job_v2 sync export choice st)"
    by (auto simp: job_failed_def)
  show "is_working (run_job_v2 sync export choice st) = False"
    using drain_ui_v2_error(3) [OF q] by (simp add: run_job_v2_def)
qed

text \<open>
  Claim C8, as the code has it. An export that ends with a non-zero exit code raises, in
  both files and whatever it printed: of the outcome callbacks the worker schedules the
  error and no success, the error box is the last thing shown before the labels are
  cleared, and \<^verbatim>\<open>is_working\<close> is false again. The export is reached when the sync loop
  raised nothing. In \<^verbatim>\<open>evernote_backup_gui.py\<close> the message in the box and in the log
  carries the exit code. In \<^verbatim>\<open>evernote_backup_gui 2.0.py\<close> (where the export is reached
  after a sync with exit code 0 and no rate-limit line) the message is a fixed sentence,
  and a status of severity "error" is published.
\<close>

theorem export_failure_fails_job:
  "(returncode export \<noteq> 0 \<and> fst (sync_part sync st) = None \<longrightarrow>
      control_calls (backup_task sync export st)
        = control_calls st @ [Ui_backup_start,
            Ui_backup_error (Export_failed_code (returncode export)), Ui_backup_finish]
    \<and> (\<exists>es. shown (run_job sync export st)
           = es @ [Ev_dialog (Dlg_backup_error (Export_failed_code (returncode export))),
                   Ev_detail D_empty, Ev_numbers N_empty])
    \<and> (\<exists>ms. log_queue (run_job sync export st)
           = ms @ [Log_error (Export_failed_code (returncode export))])
    \<and> job_failed (run_job sync export st)
    \<and> is_working (run_job sync export st) = False)
   \<and> (returncode export \<noteq> 0 \<and> returncode sync = 0
        \<and> fst (sync_part_v2 sync st) = None
        \<and> \<not> rate_limit_detected (snd (sync_part_v2 sync st)) \<longrightarrow>
      control_calls (backup_task_v2 sync export choice st)
        = control_calls st @ [Ui_backup_start, Ui_backup_error Export_failed, Ui_backup_finish]
    \<and> (\<exists>es. shown (run_job_v2 sync export choice st)
           = es @ [Ev_log (Log_error Export_failed), Ev_status St_failed Sev_error,
                   Ev_detail D_error, Ev_dialog (Dlg_backup_error Export_failed),
                   Ev_detail D_empty, Ev_numbers N_empty])
    \<and> job_failed (run_job_v2 sync export choice st)
    \<and> is_working (run_job_v2 sync export choice st) = False)"
  using export_failure_main(2-6) [of export sync st]
    export_failure_v2 [of export sync st choice]
  by blast

text \<open>The theorem at a sync that succeeds in silence and an export that prints nothing
  and exits with code 1.\<close>

theorem export_failure_fails_job_witness:
  "returncode \<lparr>stream = [], returncode = 1\<rparr> \<noteq> 0
   \<and> returncode \<lparr>stream = [], returncode = 0\<rparr> = 0
   \<and> fst (sync_part \<lparr>stream = [], returncode = 0\<rparr> ready) = None
   \<and> fst (sync_part_v2 \<lparr>stream = [], returncode = 0\<rparr> ready) = None
   \<and> rate_limit_detected (snd (sync_part_v2 \<lparr>stream = [], returncode = 0\<rparr> ready)) = False
   \<and> job_failed (run_job \<lparr>stream = [], returncode = 0\<rparr> \<lparr>stream = [], returncode = 1\<rparr> ready)
   \<and> job_failed (run_job_v2 \<lparr>stream = [], returncode = 0\<rparr> \<lparr>stream = [], returncode = 1\<rparr>
        (Some True) ready)
   \<and> control_calls (backup_task \<lparr>stream = [], returncode = 0\<rparr> \<lparr>stream = [], returncode = 1\<rparr> ready)
       = [Ui_backup_start, Ui_backup_error (Export_failed_code 1), Ui_backup_finish]
   \<and> control_calls (backup_task_v2 \<lparr>stream = [], returncode = 0\<rparr> \<lparr>stream = [], returncode = 1\<rparr>
        (Some True) ready)
       = [Ui_backup_start, Ui_backup_error Export_failed, Ui_backup_finish]"
proof -
  let ?sync = "\<lparr>stream = [], returncode = 0\<rparr>"
  let ?export = "\<lparr>stream = [], returncode = 1\<rparr>"
  have h: "returncode ?export \<noteq> 0" "returncode ?sync = 0"
    by simp_all
  have r: "fst (sync_part ?sync ready) = None" "fst (sync_part_v2 ?sync ready) = None"
    by (simp_all add: sync_part_def sync_part_v2_def Let_def)
  have d: "rate_limit_detected (snd (sync_part_v2 ?sync ready)) = False"
    by (simp add: sync_part_v2_detected [OF r(2)])
  have c: "control_calls ready = []"
    by (simp add: control_calls_def ready_def)
  note t = export_failure_fails_job [of ?export ?sync ready "Some True"]
  from t h r d have a: "job_failed (run_job ?sync ?export ready)" by blast
  from t h r d have b: "job_failed (run_job_v2 ?sync ?export (Some True) ready)" by blast
  from t h r d have f: "control_calls (backup_task ?sync ?export ready)
      = control_calls ready @ [Ui_backup_start,
            Ui_backup_error (Export_failed_code (returncode ?export)), Ui_backup_finish]"
    by blast
  from t h r d have e: "control_calls (backup_task_v2 ?sync ?export (Some True) ready)
      = control_calls ready @ [Ui_backup_start, Ui_backup_error Export_failed, Ui_backup_finish]"
    by blast
  from h r d a b f e c show ?thesis by simp
qed

text \<open>
  Claim C8 as stated fails on \<^verbatim>\<open>evernote_backup_gui 2.0.py\<close>: what the observer is shown
  and what is logged after an export that exits with code 1 is what is shown and logged
  after one that exits with code 2, so the failure detail does not include the exit code.
\<close>

theorem export_exit_code_not_shown_counterexample:
  "shown (run_job_v2 \<lparr>stream = [], returncode = 0\<rparr> \<lparr>stream = [], returncode = 1\<rparr>
            (Some True) ready)
     = shown (run_job_v2 \<lparr>stream = [], returncode = 0\<rparr> \<lparr>stream = [], returncode = 2\<rparr>
            (Some True) ready)
   \<and> log_queue (run_job_v2 \<lparr>stream = [], returncode = 0\<rparr> \<lparr>stream = [], returncode = 1\<rparr>
            (Some True) ready)
     = log_queue (run_job_v2 \<lparr>stream = [], returncode = 0\<rparr> \<lparr>stream = [], returncode = 2\<rparr>
            (Some True) ready)
   \<and> shown (run_job_v2 \<lparr>stream = [], returncode = 0\<rparr> \<lparr>stream = [], returncode = 1\<rparr>
            (Some True) ready)
     = [Ev_status St_syncing Sev_warning, Ev_detail D_syncing,
        Ev_status St_exporting Sev_warning, Ev_detail D_exporting,
        Ev_log (Log_error Export_failed), Ev_status St_failed Sev_error, Ev_detail D_error,
        Ev_dialog (Dlg_backup_error Export_failed), Ev_detail D_empty, Ev_numbers N_empty]"
  by code_simp


end
